theory Spec2Isabelle
  imports Main "HOL-Library.Multiset"
begin

section \<open>Data model (blog/api/models.py)\<close>

text \<open>
  The two Django models. Every model gets the implicit integer primary key \<open>id\<close>; the
  foreign key \<open>post\<close> of a Comment is stored as the primary key of the Post it points to
  (Django's \<open>post_id\<close>). A \<open>DateTimeField\<close> value is a reading of the server clock,
  modelled as an integer. Strings are lists of 8-bit characters, so the model covers text
  whose code points are below 256.
\<close>

type_synonym datetime = int

record Post =
  p_id :: int
  p_title :: string
  p_content :: string
  p_created_at :: datetime
  p_updated_at :: datetime

record Comment =
  c_id :: int
  c_post :: int
  c_author :: string
  c_content :: string
  c_created_at :: datetime
  c_updated_at :: datetime

text \<open>
  The entity store: the rows of the two tables in insertion order, and for each table the
  largest primary key it has ever held (the counter behind an auto-incremented key).
\<close>

record db =
  posts :: "Post list"
  comments :: "Comment list"
  post_seq :: int
  comment_seq :: int

text \<open>
  Everything a request can fail with. \<open>Http404\<close> and \<open>ValidationError\<close> are turned
  into the responses 404 and 400 by the framework; the other four are exceptions that
  nothing in the repository catches, so the request ends as a server error (500).
  \<open>ValidationError\<close> carries the names of the fields that failed.
\<close>

datatype error =
    Http404
  | ValidationError "string list"
  | DoesNotExist
  | IntegrityError
  | TypeError
  | OverflowError

type_synonym 'a result = "(error + 'a) \<times> db"

text \<open>
  The dictionaries the serializers pass around: the parsed request body and the validated
  data have the same shape, a dictionary from attribute names to values in which any key
  may be missing (\<open>None\<close>). A \<open>post\<close> entry is a Post, held by its primary key.
  \<open>comment_data\<close> is a dictionary of Comment attributes, \<open>post_data\<close> one of Post
  attributes with the nested list \<open>comments\<close>.
\<close>

record comment_data =
  cd_id :: "int option"
  cd_post :: "int option"
  cd_author :: "string option"
  cd_content :: "string option"
  cd_created_at :: "datetime option"
  cd_updated_at :: "datetime option"

record post_data =
  pd_title :: "string option"
  pd_content :: "string option"
  pd_comments :: "comment_data list option"

section \<open>The object-relational mapper, as far as the repository uses it\<close>

text \<open>
  The repository's four files declare models, serializers, views and routes; what these
  declarations do is the behaviour of Django and of Django REST framework. The model
  states that behaviour where the repository relies on it, each piece next to the
  declaration that calls for it:
  \<^item> the manager and instance methods \<open>create\<close>, \<open>get\<close>, \<open>filter\<close>, \<open>order_by\<close>,
    \<open>save\<close>, \<open>delete\<close>, with auto-incremented keys, \<open>auto_now_add\<close>, \<open>auto_now\<close>
    and the cascade of \<open>on_delete=models.CASCADE\<close>;
  \<^item> the fields a \<open>ModelSerializer\<close> derives from a model, which of them are required or
    read-only, and that a read-only field of the input never reaches the validated data;
  \<^item> the order of steps of the generic views (validate, then \<open>perform_create\<close>; fetch the
    object, then validate, then save) and their status codes.
\<close>

definition post_ids :: "db \<Rightarrow> int list" where
  "post_ids d = map p_id (posts d)"

definition comment_ids :: "db \<Rightarrow> int list" where
  "comment_ids d = map c_id (comments d)"

text \<open>
  An auto-incremented key is one more than the largest key the table has ever held
  (the counter, or a larger key still stored).
\<close>

definition next_id :: "int \<Rightarrow> int list \<Rightarrow> int" where
  "next_id seq ids = fold max ids seq + 1"

text \<open>\<open>Post.objects.filter(id=pk).first()\<close>: the row with that primary key, if any.\<close>

definition Post_find :: "db \<Rightarrow> int \<Rightarrow> Post option" where
  "Post_find d pk = find (\<lambda>p. p_id p = pk) (posts d)"

text \<open>
  \<open>Post.objects.create(title=..., content=...)\<close>: a fresh key, both timestamps from the
  clock (\<open>auto_now_add\<close>, \<open>auto_now\<close>).
\<close>

definition Post_objects_create :: "datetime \<Rightarrow> string \<Rightarrow> string \<Rightarrow> db \<Rightarrow> Post \<times> db" where
  "Post_objects_create now title content d =
     (let i = next_id (post_seq d) (post_ids d);
          p = \<lparr>p_id = i, p_title = title, p_content = content,
               p_created_at = now, p_updated_at = now\<rparr>
      in (p, d\<lparr>posts := posts d @ [p], post_seq := i\<rparr>))"

text \<open>
  \<open>post.save()\<close> on an instance that carries a key: the row with that key is rewritten
  with \<open>updated_at\<close> refreshed (\<open>auto_now\<close>); when no row has the key, the instance is
  inserted under it, with both timestamps from the clock.
\<close>

definition Post_save :: "datetime \<Rightarrow> Post \<Rightarrow> db \<Rightarrow> Post \<times> db" where
  "Post_save now p d =
     (if p_id p \<in> set (post_ids d) then
        (let p' = p\<lparr>p_updated_at := now\<rparr>
         in (p', d\<lparr>posts := map (\<lambda>r. if p_id r = p_id p then p' else r) (posts d)\<rparr>))
      else
        (let p' = p\<lparr>p_created_at := now, p_updated_at := now\<rparr>
         in (p', d\<lparr>posts := posts d @ [p'], post_seq := max (post_seq d) (p_id p)\<rparr>)))"

text \<open>
  \<open>post.delete()\<close>: the foreign key of Comment is declared \<open>on_delete=models.CASCADE\<close>,
  so the Comments that point to the Post go with it.
\<close>

definition Post_delete :: "int \<Rightarrow> db \<Rightarrow> db" where
  "Post_delete pk d =
     d\<lparr>comments := filter (\<lambda>c. c_post c \<noteq> pk) (comments d),
       posts := filter (\<lambda>p. p_id p \<noteq> pk) (posts d)\<rparr>"

text \<open>
  The database holds an integer in 64 bits, and the route converter \<open><int:...>\<close> accepts
  any run of digits, so an integer of the URL can be one that the database cannot take.
  Compared with a primary key such an integer simply matches no row (the mapper knows the
  range of the key and answers without running the query). Compared with the foreign-key
  column \<open>post_id\<close> it is handed to the database as a query parameter, and the query
  fails with \<open>OverflowError\<close> when it runs.
\<close>

definition fits_integer :: "int \<Rightarrow> bool" where
  "fits_integer k = (- 9223372036854775808 \<le> k \<and> k \<le> 9223372036854775807)"

text \<open>\<open>Comment.objects.filter(post_id=post_pk)\<close>, when the query runs.\<close>

definition Comment_objects_filter :: "int \<Rightarrow> db \<Rightarrow> error + Comment list" where
  "Comment_objects_filter post_pk d =
     (if fits_integer post_pk then Inr (filter (\<lambda>c. c_post c = post_pk) (comments d))
      else Inl OverflowError)"

text \<open>
  \<open>Comment.objects.get(id=comment_id, post=instance)\<close>: the Comment with that key among
  the Comments of that Post; \<open>Comment.DoesNotExist\<close> when there is none.
\<close>

definition Comment_objects_get :: "db \<Rightarrow> int \<Rightarrow> int \<Rightarrow> error + Comment" where
  "Comment_objects_get d comment_id post_pk =
     (case find (\<lambda>c. c_id c = comment_id \<and> c_post c = post_pk) (comments d) of
        None \<Rightarrow> Inl DoesNotExist
      | Some c \<Rightarrow> Inr c)"

text \<open>
  \<open>Comment.objects.create(**kwargs)\<close>. A missing \<open>post\<close> violates the NOT NULL
  constraint of the foreign key, a \<open>post\<close> that is not stored violates the foreign key.
  Without \<open>id\<close> the row gets an auto-incremented key; with an explicit \<open>id\<close> the row
  is inserted under that key, and the insert fails when the key is taken. A missing
  \<open>author\<close> or \<open>content\<close> is the empty string (the default of a character field).
  Both timestamps come from the clock whatever the caller passed.
\<close>

definition Comment_objects_create :: "datetime \<Rightarrow> comment_data \<Rightarrow> db \<Rightarrow> Comment result" where
  "Comment_objects_create now kwargs d =
     (case cd_post kwargs of
        None \<Rightarrow> (Inl IntegrityError, d)
      | Some post_pk \<Rightarrow>
          (if post_pk \<notin> set (post_ids d) then (Inl IntegrityError, d)
           else
             (let i = (case cd_id kwargs of
                         None \<Rightarrow> next_id (comment_seq d) (comment_ids d)
                       | Some k \<Rightarrow> k);
                  c = \<lparr>c_id = i, c_post = post_pk,
                       c_author = (case cd_author kwargs of None \<Rightarrow> [] | Some a \<Rightarrow> a),
                       c_content = (case cd_content kwargs of None \<Rightarrow> [] | Some t \<Rightarrow> t),
                       c_created_at = now, c_updated_at = now\<rparr>
              in if i \<in> set (comment_ids d) then (Inl IntegrityError, d)
                 else (Inr c, d\<lparr>comments := comments d @ [c],
                               comment_seq := max (comment_seq d) i\<rparr>))))"

text \<open>
  \<open>comment.save()\<close> on an instance that carries a key: the row with that key is
  rewritten with \<open>updated_at\<close> refreshed; when no row has the key the instance is inserted
  under it. The Post it points to must exist.
\<close>

definition Comment_save :: "datetime \<Rightarrow> Comment \<Rightarrow> db \<Rightarrow> Comment result" where
  "Comment_save now c d =
     (if c_post c \<notin> set (post_ids d) then (Inl IntegrityError, d)
      else if c_id c \<in> set (comment_ids d) then
        (let c' = c\<lparr>c_updated_at := now\<rparr>
         in (Inr c', d\<lparr>comments := map (\<lambda>r. if c_id r = c_id c then c' else r) (comments d)\<rparr>))
      else
        (let c' = c\<lparr>c_created_at := now, c_updated_at := now\<rparr>
         in (Inr c', d\<lparr>comments := comments d @ [c'],
                      comment_seq := max (comment_seq d) (c_id c)\<rparr>)))"

text \<open>\<open>comment.delete()\<close>.\<close>

definition Comment_delete :: "int \<Rightarrow> db \<Rightarrow> db" where
  "Comment_delete pk d = d\<lparr>comments := filter (\<lambda>c. c_id c \<noteq> pk) (comments d)\<rparr>"

section \<open>Serializers (blog/api/serializers.py)\<close>

subsection \<open>Field validation\<close>

text \<open>
  What the framework's character field does with a submitted string: surrounding white
  space is stripped (Python's \<open>str.strip\<close>), and the value is refused when nothing is
  left, when it contains the null character, or when it is longer than \<open>max_length\<close>.
  A missing value is refused unless the update is partial (PATCH).
\<close>

definition isspace :: "char \<Rightarrow> bool" where
  "isspace c = (c \<in> set [CHR 0x09, CHR 0x0A, CHR 0x0B, CHR 0x0C, CHR 0x0D, CHR 0x1C,
                          CHR 0x1D, CHR 0x1E, CHR 0x1F, CHR 0x20, CHR 0x85, CHR 0xA0])"

definition strip :: "string \<Rightarrow> string" where
  "strip s = rev (dropWhile isspace (rev (dropWhile isspace s)))"

definition CharField_valid :: "bool \<Rightarrow> nat option \<Rightarrow> string option \<Rightarrow> bool" where
  "CharField_valid partial max_length data =
     (case data of
        None \<Rightarrow> partial
      | Some s \<Rightarrow>
          strip s \<noteq> [] \<and> CHR 0x00 \<notin> set (strip s) \<and>
          (case max_length of None \<Rightarrow> True | Some n \<Rightarrow> length (strip s) \<le> n))"

text \<open>
  The related field of a foreign key: the submitted primary key must be the key of a
  stored Post.
\<close>

definition PrimaryKeyRelatedField_valid :: "bool \<Rightarrow> db \<Rightarrow> int option \<Rightarrow> bool" where
  "PrimaryKeyRelatedField_valid partial d data =
     (case data of None \<Rightarrow> partial | Some pk \<Rightarrow> pk \<in> set (post_ids d))"

definition field_error :: "bool \<Rightarrow> string \<Rightarrow> string list" where
  "field_error valid name = (if valid then [] else [name])"

subsection \<open>CommentSerializer\<close>

text \<open>
  \<open>fields = "__all__"\<close> on Comment: the writable fields are \<open>post\<close>, \<open>author\<close>
  (at most 50 characters) and \<open>content\<close>, all three required, since the model gives none
  of them a default and allows none to be empty; \<open>id\<close>, \<open>created_at\<close> and \<open>updated_at\<close>
  are read-only. A read-only field of the request body is ignored: it never reaches the
  validated data.
\<close>

definition CommentSerializer_is_valid :: "bool \<Rightarrow> db \<Rightarrow> comment_data \<Rightarrow> error + comment_data" where
  "CommentSerializer_is_valid partial d data =
     (let errors =
            field_error (PrimaryKeyRelatedField_valid partial d (cd_post data)) ''post'' @
            field_error (CharField_valid partial (Some 50) (cd_author data)) ''author'' @
            field_error (CharField_valid partial None (cd_content data)) ''content''
      in if errors = [] then
           Inr \<lparr>cd_id = None, cd_post = cd_post data,
                cd_author = map_option strip (cd_author data),
                cd_content = map_option strip (cd_content data),
                cd_created_at = None, cd_updated_at = None\<rparr>
         else Inl (ValidationError errors))"

text \<open>
  \<open>for attr, value in comment_data.items(): setattr(comment, attr, value)\<close>, the loop
  of \<open>PostSerializer.update\<close> and of the framework's own \<open>ModelSerializer.update\<close>.
\<close>

definition Comment_setattrs :: "comment_data \<Rightarrow> Comment \<Rightarrow> Comment" where
  "Comment_setattrs data c =
     \<lparr>c_id = (case cd_id data of None \<Rightarrow> c_id c | Some v \<Rightarrow> v),
      c_post = (case cd_post data of None \<Rightarrow> c_post c | Some v \<Rightarrow> v),
      c_author = (case cd_author data of None \<Rightarrow> c_author c | Some v \<Rightarrow> v),
      c_content = (case cd_content data of None \<Rightarrow> c_content c | Some v \<Rightarrow> v),
      c_created_at = (case cd_created_at data of None \<Rightarrow> c_created_at c | Some v \<Rightarrow> v),
      c_updated_at = (case cd_updated_at data of None \<Rightarrow> c_updated_at c | Some v \<Rightarrow> v)\<rparr>"

text \<open>
  CommentSerializer does not override \<open>create\<close> or \<open>update\<close>, so the framework's apply:
  \<open>Comment.objects.create(**validated_data)\<close>, and the attribute loop followed by
  \<open>instance.save()\<close>.
\<close>

definition CommentSerializer_create :: "datetime \<Rightarrow> comment_data \<Rightarrow> db \<Rightarrow> Comment result" where
  "CommentSerializer_create now validated_data d = Comment_objects_create now validated_data d"

definition CommentSerializer_update ::
  "datetime \<Rightarrow> Comment \<Rightarrow> comment_data \<Rightarrow> db \<Rightarrow> Comment result" where
  "CommentSerializer_update now instance validated_data d =
     Comment_save now (Comment_setattrs validated_data instance) d"

subsection \<open>PostSerializer\<close>

text \<open>
  \<open>fields = "__all__"\<close> on Post, with \<open>comments = CommentSerializer(many=True,
  read_only=True)\<close>: the writable fields are \<open>title\<close> (at most 100 characters) and
  \<open>content\<close>. \<open>comments\<close> is declared read-only, so a \<open>comments\<close> list in the request
  body is ignored and the validated data never has the key.
\<close>

definition PostSerializer_is_valid :: "bool \<Rightarrow> post_data \<Rightarrow> error + post_data" where
  "PostSerializer_is_valid partial data =
     (let errors =
            field_error (CharField_valid partial (Some 100) (pd_title data)) ''title'' @
            field_error (CharField_valid partial None (pd_content data)) ''content''
      in if errors = [] then
           Inr \<lparr>pd_title = map_option strip (pd_title data),
                pd_content = map_option strip (pd_content data),
                pd_comments = None\<rparr>
         else Inl (ValidationError errors))"

text \<open>The representation of a Post: its fields and the nested list of its Comments.\<close>

definition PostSerializer_data :: "db \<Rightarrow> Post \<Rightarrow> Post \<times> Comment list" where
  "PostSerializer_data d p = (p, filter (\<lambda>c. c_post c = p_id p) (comments d))"

definition PostSerializer_create :: "datetime \<Rightarrow> post_data \<Rightarrow> db \<Rightarrow> Post \<times> db" where
  "PostSerializer_create now validated_data d =
     Post_objects_create now
       (case pd_title validated_data of None \<Rightarrow> [] | Some t \<Rightarrow> t)
       (case pd_content validated_data of None \<Rightarrow> [] | Some t \<Rightarrow> t) d"

definition Post_setattrs :: "post_data \<Rightarrow> Post \<Rightarrow> Post" where
  "Post_setattrs data p =
     p\<lparr>p_title := (case pd_title data of None \<Rightarrow> p_title p | Some v \<Rightarrow> v),
       p_content := (case pd_content data of None \<Rightarrow> p_content p | Some v \<Rightarrow> v)\<rparr>"

text \<open>\<open>super().update(instance, validated_data)\<close>: the attribute loop and \<open>instance.save()\<close>.\<close>

definition ModelSerializer_update :: "datetime \<Rightarrow> Post \<Rightarrow> post_data \<Rightarrow> db \<Rightarrow> Post \<times> db" where
  "ModelSerializer_update now instance validated_data d =
     Post_save now (Post_setattrs validated_data instance) d"

text \<open>
  The body of the loop of \<open>PostSerializer.update\<close>, for one element of \<open>comments_data\<close>.
  \<open>if comment_id:\<close> is Python's truth test: a missing identifier, \<open>None\<close> and \<open>0\<close> are
  false. In the \<open>else\<close> branch, \<open>Comment.objects.create(post=instance, **comment_data)\<close>
  is a call with the keyword \<open>post\<close> given twice when the element has a \<open>post\<close> entry of
  its own, which Python refuses with a TypeError before anything is created.
\<close>

definition update_branch :: "datetime \<Rightarrow> Post \<Rightarrow> int \<Rightarrow> comment_data \<Rightarrow> db \<Rightarrow> unit result" where
  "update_branch now instance comment_id comment_data d =
     (case Comment_objects_get d comment_id (p_id instance) of
        Inl e \<Rightarrow> (Inl e, d)
      | Inr comment \<Rightarrow>
          (case Comment_save now (Comment_setattrs comment_data comment) d of
             (Inl e, d') \<Rightarrow> (Inl e, d')
           | (Inr _, d') \<Rightarrow> (Inr (), d')))"

definition create_branch :: "datetime \<Rightarrow> Post \<Rightarrow> comment_data \<Rightarrow> db \<Rightarrow> unit result" where
  "create_branch now instance comment_data d =
     (if cd_post comment_data \<noteq> None then (Inl TypeError, d)
      else
        (case Comment_objects_create now (comment_data\<lparr>cd_post := Some (p_id instance)\<rparr>) d of
           (Inl e, d') \<Rightarrow> (Inl e, d')
         | (Inr _, d') \<Rightarrow> (Inr (), d')))"

definition merge_comment :: "datetime \<Rightarrow> Post \<Rightarrow> comment_data \<Rightarrow> db \<Rightarrow> unit result" where
  "merge_comment now instance comment_data d =
     (case cd_id comment_data of
        None \<Rightarrow> create_branch now instance comment_data d
      | Some comment_id \<Rightarrow>
          (if comment_id \<noteq> 0 then update_branch now instance comment_id comment_data d
           else create_branch now instance comment_data d))"

text \<open>
  \<open>for comment_data in comments_data\<close>: an exception ends the loop; what the earlier
  elements wrote stays written.
\<close>

fun merge_comments :: "datetime \<Rightarrow> Post \<Rightarrow> comment_data list \<Rightarrow> db \<Rightarrow> unit result" where
  "merge_comments now instance [] d = (Inr (), d)"
| "merge_comments now instance (comment_data # rest) d =
     (case merge_comment now instance comment_data d of
        (Inl e, d') \<Rightarrow> (Inl e, d')
      | (Inr _, d') \<Rightarrow> merge_comments now instance rest d')"

definition PostSerializer_update :: "datetime \<Rightarrow> Post \<Rightarrow> post_data \<Rightarrow> db \<Rightarrow> Post result" where
  "PostSerializer_update now instance validated_data d =
     (let comments_data = pd_comments validated_data;
          (instance', d') =
             ModelSerializer_update now instance (validated_data\<lparr>pd_comments := None\<rparr>) d
      in case comments_data of
           None \<Rightarrow> (Inr instance', d')
         | Some elements \<Rightarrow>
             (case merge_comments now instance' elements d' of
                (Inl e, d'') \<Rightarrow> (Inl e, d'')
              | (Inr _, d'') \<Rightarrow> (Inr instance', d'')))"

section \<open>Views (blog/api/views.py) and routes (blog/api/urls.py)\<close>

text \<open>
  Each view method takes the store and returns its result with the store it leaves. The
  generic views of the framework fix the order of the steps: a create validates the body
  and then calls \<open>perform_create\<close>; an update or a delete first fetches the object from
  \<open>get_queryset()\<close> by the \<open>pk\<close> of the URL (404 when it is not there), an update then
  validates the body and saves. An exception that a query raises ends the request where
  it stands.
\<close>

subsection \<open>Posts\<close>

definition PostListCreateAPIView_get :: "db \<Rightarrow> (Post \<times> Comment list) list result" where
  "PostListCreateAPIView_get d = (Inr (map (PostSerializer_data d) (posts d)), d)"

definition PostListCreateAPIView_post :: "datetime \<Rightarrow> post_data \<Rightarrow> db \<Rightarrow> (Post \<times> Comment list) result" where
  "PostListCreateAPIView_post now data d =
     (case PostSerializer_is_valid False data of
        Inl e \<Rightarrow> (Inl e, d)
      | Inr validated_data \<Rightarrow>
          (let (p, d') = PostSerializer_create now validated_data d
           in (Inr (PostSerializer_data d' p), d')))"

definition PostRetrieveUpdateDestroyAPIView_get :: "int \<Rightarrow> db \<Rightarrow> (Post \<times> Comment list) result" where
  "PostRetrieveUpdateDestroyAPIView_get pk d =
     (case Post_find d pk of
        None \<Rightarrow> (Inl Http404, d)
      | Some instance \<Rightarrow> (Inr (PostSerializer_data d instance), d))"

definition PostRetrieveUpdateDestroyAPIView_update ::
  "datetime \<Rightarrow> bool \<Rightarrow> int \<Rightarrow> post_data \<Rightarrow> db \<Rightarrow> (Post \<times> Comment list) result" where
  "PostRetrieveUpdateDestroyAPIView_update now partial pk data d =
     (case Post_find d pk of
        None \<Rightarrow> (Inl Http404, d)
      | Some instance \<Rightarrow>
          (case PostSerializer_is_valid partial data of
             Inl e \<Rightarrow> (Inl e, d)
           | Inr validated_data \<Rightarrow>
               (case PostSerializer_update now instance validated_data d of
                  (Inl e, d') \<Rightarrow> (Inl e, d')
                | (Inr p, d') \<Rightarrow> (Inr (PostSerializer_data d' p), d'))))"

definition PostRetrieveUpdateDestroyAPIView_delete :: "int \<Rightarrow> db \<Rightarrow> unit result" where
  "PostRetrieveUpdateDestroyAPIView_delete pk d =
     (case Post_find d pk of
        None \<Rightarrow> (Inl Http404, d)
      | Some instance \<Rightarrow> (Inr (), Post_delete (p_id instance) d))"

subsection \<open>Comments, under the Post of the URL\<close>

text \<open>
  \<open>Comment.objects.filter(post_id=self.kwargs["post_pk"]).order_by("-created_at")\<close>,
  as the list view evaluates it: the rows, or the error of the query. The sort is on the
  negated timestamp, so the newest comes first; the model keeps Comments of equal
  timestamp in table order, which the database leaves open.
\<close>

definition CommentListCreateAPIView_get_queryset :: "int \<Rightarrow> db \<Rightarrow> error + Comment list" where
  "CommentListCreateAPIView_get_queryset post_pk d =
     (case Comment_objects_filter post_pk d of
        Inl e \<Rightarrow> Inl e
      | Inr rows \<Rightarrow> Inr (sort_key (\<lambda>c. - c_created_at c) rows))"

definition CommentListCreateAPIView_get :: "int \<Rightarrow> db \<Rightarrow> Comment list result" where
  "CommentListCreateAPIView_get post_pk d =
     (CommentListCreateAPIView_get_queryset post_pk d, d)"

text \<open>
  \<open>post = get_object_or_404(Post, id=self.kwargs["post_pk"]); serializer.save(post=post)\<close>:
  \<open>save\<close> puts its keyword arguments over the validated data and calls \<open>create\<close>.
\<close>

definition perform_create :: "datetime \<Rightarrow> int \<Rightarrow> comment_data \<Rightarrow> db \<Rightarrow> Comment result" where
  "perform_create now post_pk validated_data d =
     (case Post_find d post_pk of
        None \<Rightarrow> (Inl Http404, d)
      | Some post \<Rightarrow>
          CommentSerializer_create now (validated_data\<lparr>cd_post := Some (p_id post)\<rparr>) d)"

definition CommentListCreateAPIView_post :: "datetime \<Rightarrow> int \<Rightarrow> comment_data \<Rightarrow> db \<Rightarrow> Comment result" where
  "CommentListCreateAPIView_post now post_pk data d =
     (case CommentSerializer_is_valid False d data of
        Inl e \<Rightarrow> (Inl e, d)
      | Inr validated_data \<Rightarrow> perform_create now post_pk validated_data d)"

text \<open>
  \<open>Comment.objects.filter(post_id=self.kwargs["post_pk"])\<close>, and the lookup by \<open>pk\<close>
  in it, which the generic view does with \<open>get_object_or_404\<close>. Both conditions go into
  one query: a \<open>pk\<close> outside the range of the key matches no row and the query is not
  run; otherwise it runs, and fails when \<open>post_pk\<close> does not fit.
\<close>

definition CommentRetrieveUpdateDestroyAPIView_get_queryset :: "int \<Rightarrow> db \<Rightarrow> error + Comment list" where
  "CommentRetrieveUpdateDestroyAPIView_get_queryset post_pk d = Comment_objects_filter post_pk d"

definition get_object :: "int \<Rightarrow> int \<Rightarrow> db \<Rightarrow> error + Comment" where
  "get_object post_pk pk d =
     (if \<not> fits_integer pk then Inl Http404
      else
        (case CommentRetrieveUpdateDestroyAPIView_get_queryset post_pk d of
           Inl e \<Rightarrow> Inl e
         | Inr queryset \<Rightarrow>
             (case find (\<lambda>c. c_id c = pk) queryset of
                None \<Rightarrow> Inl Http404
              | Some c \<Rightarrow> Inr c)))"

definition CommentRetrieveUpdateDestroyAPIView_get :: "int \<Rightarrow> int \<Rightarrow> db \<Rightarrow> Comment result" where
  "CommentRetrieveUpdateDestroyAPIView_get post_pk pk d = (get_object post_pk pk d, d)"

definition CommentRetrieveUpdateDestroyAPIView_update ::
  "datetime \<Rightarrow> bool \<Rightarrow> int \<Rightarrow> int \<Rightarrow> comment_data \<Rightarrow> db \<Rightarrow> Comment result" where
  "CommentRetrieveUpdateDestroyAPIView_update now partial post_pk pk data d =
     (case get_object post_pk pk d of
        Inl e \<Rightarrow> (Inl e, d)
      | Inr instance \<Rightarrow>
          (case CommentSerializer_is_valid partial d data of
             Inl e \<Rightarrow> (Inl e, d)
           | Inr validated_data \<Rightarrow> CommentSerializer_update now instance validated_data d))"

definition CommentRetrieveUpdateDestroyAPIView_delete :: "int \<Rightarrow> int \<Rightarrow> db \<Rightarrow> unit result" where
  "CommentRetrieveUpdateDestroyAPIView_delete post_pk pk d =
     (case get_object post_pk pk d of
        Inl e \<Rightarrow> (Inl e, d)
      | Inr instance \<Rightarrow> (Inr (), Comment_delete (c_id instance) d))"

subsection \<open>Requests, responses and the routing table\<close>

datatype request =
    GET_posts
  | POST_posts post_data
  | GET_post int
  | PUT_post int post_data
  | PATCH_post int post_data
  | DELETE_post int
  | GET_comments int
  | POST_comments int comment_data
  | GET_comment int int
  | PUT_comment int int comment_data
  | PATCH_comment int int comment_data
  | DELETE_comment int int

datatype payload =
    PostJSON "Post \<times> Comment list"
  | PostListJSON "(Post \<times> Comment list) list"
  | CommentJSON Comment
  | CommentListJSON "Comment list"
  | NoContent
  | ErrorJSON error

type_synonym response = "nat \<times> payload"

definition status_of_error :: "error \<Rightarrow> nat" where
  "status_of_error e =
     (case e of Http404 \<Rightarrow> 404 | ValidationError _ \<Rightarrow> 400 | _ \<Rightarrow> 500)"

definition respond :: "nat \<Rightarrow> ('a \<Rightarrow> payload) \<Rightarrow> 'a result \<Rightarrow> response \<times> db" where
  "respond ok render r =
     (case r of
        (Inl e, d) \<Rightarrow> ((status_of_error e, ErrorJSON e), d)
      | (Inr x, d) \<Rightarrow> ((ok, render x), d))"

text \<open>
  \<open>urlpatterns\<close>: \<open>posts/\<close>, \<open>posts/<int:pk>/\<close>, \<open>posts/<int:post_pk>/comments/\<close> and
  \<open>posts/<int:post_pk>/comments/<int:pk>/\<close>, each with the methods of its generic view.
  \<open>now\<close> is the reading of the server clock during the request.
\<close>

fun urlpatterns :: "datetime \<Rightarrow> request \<Rightarrow> db \<Rightarrow> response \<times> db" where
  "urlpatterns now GET_posts d = respond 200 PostListJSON (PostListCreateAPIView_get d)"
| "urlpatterns now (POST_posts data) d =
     respond 201 PostJSON (PostListCreateAPIView_post now data d)"
| "urlpatterns now (GET_post pk) d =
     respond 200 PostJSON (PostRetrieveUpdateDestroyAPIView_get pk d)"
| "urlpatterns now (PUT_post pk data) d =
     respond 200 PostJSON (PostRetrieveUpdateDestroyAPIView_update now False pk data d)"
| "urlpatterns now (PATCH_post pk data) d =
     respond 200 PostJSON (PostRetrieveUpdateDestroyAPIView_update now True pk data d)"
| "urlpatterns now (DELETE_post pk) d =
     respond 204 (\<lambda>_. NoContent) (PostRetrieveUpdateDestroyAPIView_delete pk d)"
| "urlpatterns now (GET_comments post_pk) d =
     respond 200 CommentListJSON (CommentListCreateAPIView_get post_pk d)"
| "urlpatterns now (POST_comments post_pk data) d =
     respond 201 CommentJSON (CommentListCreateAPIView_post now post_pk data d)"
| "urlpatterns now (GET_comment post_pk pk) d =
     respond 200 CommentJSON (CommentRetrieveUpdateDestroyAPIView_get post_pk pk d)"
| "urlpatterns now (PUT_comment post_pk pk data) d =
     respond 200 CommentJSON (CommentRetrieveUpdateDestroyAPIView_update now False post_pk pk data d)"
| "urlpatterns now (PATCH_comment post_pk pk data) d =
     respond 200 CommentJSON (CommentRetrieveUpdateDestroyAPIView_update now True post_pk pk data d)"
| "urlpatterns now (DELETE_comment post_pk pk) d =
     respond 204 (\<lambda>_. NoContent) (CommentRetrieveUpdateDestroyAPIView_delete post_pk pk d)"

text \<open>A run of requests, each with the clock reading at which it is served.\<close>

fun serve :: "(datetime \<times> request) list \<Rightarrow> db \<Rightarrow> db" where
  "serve [] d = d"
| "serve ((now, r) # rs) d = serve rs (snd (urlpatterns now r d))"

text \<open>
  The constraints the database keeps: primary keys are unique, every Comment points to a
  stored Post, and no stored key is above its table's counter.
\<close>

definition wf_db :: "db \<Rightarrow> bool" where
  "wf_db d =
     (distinct (post_ids d) \<and> distinct (comment_ids d) \<and>
      list_all (\<lambda>c. c_post c \<in> set (post_ids d)) (comments d) \<and>
      list_all (\<lambda>k. k \<le> post_seq d) (post_ids d) \<and>
      list_all (\<lambda>k. k \<le> comment_seq d) (comment_ids d))"

definition empty_db :: db where
  "empty_db = \<lparr>posts = [], comments = [], post_seq = 0, comment_seq = 0\<rparr>"

text \<open>
  A key is retired when no Comment has it and the table's counter has passed it.
\<close>

definition retired :: "int \<Rightarrow> db \<Rightarrow> bool" where
  "retired k d = (k \<notin> set (comment_ids d) \<and> k \<le> comment_seq d)"

subsection \<open>Example data\<close>

text \<open>
  A request body for the comment endpoints (\<open>post\<close>, \<open>author\<close>, \<open>content\<close>), an element
  of a nested \<open>comments\<close> list (\<open>id\<close>, \<open>author\<close>, \<open>content\<close>), a request body for the
  post endpoints, and a store with two Posts and three Comments.
\<close>

definition comment_body :: "int option \<Rightarrow> string option \<Rightarrow> string option \<Rightarrow> comment_data" where
  "comment_body post author content =
     \<lparr>cd_id = None, cd_post = post, cd_author = author, cd_content = content,
      cd_created_at = None, cd_updated_at = None\<rparr>"

definition comment_element :: "int option \<Rightarrow> string option \<Rightarrow> string option \<Rightarrow> comment_data" where
  "comment_element ident author content =
     \<lparr>cd_id = ident, cd_post = None, cd_author = author, cd_content = content,
      cd_created_at = None, cd_updated_at = None\<rparr>"

definition post_body :: "string option \<Rightarrow> string option \<Rightarrow> post_data" where
  "post_body title content = \<lparr>pd_title = title, pd_content = content, pd_comments = None\<rparr>"

definition example_db :: db where
  "example_db =
     \<lparr>posts =
        [\<lparr>p_id = 1, p_title = ''A'', p_content = ''B'', p_created_at = 10, p_updated_at = 10\<rparr>,
         \<lparr>p_id = 2, p_title = ''C'', p_content = ''D'', p_created_at = 12, p_updated_at = 12\<rparr>],
      comments =
        [\<lparr>c_id = 1, c_post = 1, c_author = ''x'', c_content = ''hi'',
          c_created_at = 11, c_updated_at = 11\<rparr>,
         \<lparr>c_id = 2, c_post = 2, c_author = ''y'', c_content = ''ho'',
          c_created_at = 13, c_updated_at = 13\<rparr>,
         \<lparr>c_id = 3, c_post = 1, c_author = ''z'', c_content = ''hum'',
          c_created_at = 14, c_updated_at = 14\<rparr>],
      post_seq = 2, comment_seq = 3\<rparr>"

section \<open>Facts about the store\<close>

subsection \<open>Fresh keys, lookups\<close>

lemma fold_max_ge_seq: "seq \<le> fold max ids (seq::int)"
  by (induction ids arbitrary: seq) (auto intro: order_trans [OF max.cobounded2])

lemma fold_max_ge_elem: "k \<in> set ids \<Longrightarrow> k \<le> fold max ids (seq::int)"
proof (induction ids arbitrary: seq)
  case Nil
  then show ?case by simp
next
  case (Cons x xs)
  show ?case
  proof (cases "k = x")
    case True
    have "x \<le> max x seq" by simp
    also have "\<dots> \<le> fold max xs (max x seq)" by (rule fold_max_ge_seq)
    finally show ?thesis using True by simp
  next
    case False
    with Cons.prems have "k \<in> set xs" by simp
    then show ?thesis using Cons.IH by simp
  qed
qed

lemma next_id_fresh: "next_id seq ids \<notin> set ids"
  using fold_max_ge_elem [of "next_id seq ids" ids seq] by (auto simp: next_id_def)

lemma next_id_gt_seq: "seq < next_id seq ids"
  using fold_max_ge_seq [of seq ids] by (simp add: next_id_def)

lemma next_id_gt_elem: "k \<in> set ids \<Longrightarrow> k < next_id seq ids"
  using fold_max_ge_elem [of k ids seq] by (simp add: next_id_def)

lemma map_replace_key:
  "f y = k \<Longrightarrow> map f (map (\<lambda>r. if f r = k then y else r) xs) = map f xs"
  by (induction xs) auto

lemma map_replace_key_comp:
  "f y = k \<Longrightarrow> map (f \<circ> (\<lambda>r. if f r = k then y else r)) xs = map f xs"
  by (induction xs) auto

lemma Post_find_None: "Post_find d pk = None \<longleftrightarrow> pk \<notin> set (post_ids d)"
  by (auto simp: Post_find_def post_ids_def find_None_iff)

lemma Post_find_Some: "Post_find d pk = Some p \<Longrightarrow> p \<in> set (posts d) \<and> p_id p = pk"
  by (auto simp: Post_find_def find_Some_iff)

subsection \<open>The constraints of the store are kept by every operation\<close>

lemma wf_empty_db: "wf_db empty_db"
  by (simp add: wf_db_def empty_db_def post_ids_def comment_ids_def)

lemma wf_Post_objects_create:
  assumes "wf_db d" shows "wf_db (snd (Post_objects_create now t c d))"
proof -
  let ?i = "next_id (post_seq d) (post_ids d)"
  have "?i \<notin> set (post_ids d)" by (rule next_id_fresh)
  moreover have "\<forall>k\<in>set (post_ids d). k \<le> ?i"
    using next_id_gt_elem [of _ "post_ids d" "post_seq d"] by (auto intro: less_imp_le)
  ultimately show ?thesis using assms
    by (auto simp: wf_db_def Post_objects_create_def Let_def post_ids_def comment_ids_def list_all_iff)
qed

lemma Post_save_existing:
  assumes "p_id p \<in> set (post_ids d)"
  shows "post_ids (snd (Post_save now p d)) = post_ids d"
    and "comments (snd (Post_save now p d)) = comments d"
    and "post_seq (snd (Post_save now p d)) = post_seq d"
    and "comment_seq (snd (Post_save now p d)) = comment_seq d"
  using assms by (simp_all add: Post_save_def Let_def post_ids_def map_replace_key_comp)

lemma wf_Post_save:
  assumes "wf_db d" shows "wf_db (snd (Post_save now p d))"
proof (cases "p_id p \<in> set (post_ids d)")
  case True
  show ?thesis using assms
    by (simp add: wf_db_def comment_ids_def Post_save_existing [OF True])
next
  case False
  then show ?thesis using assms
    by (auto simp: wf_db_def Post_save_def Let_def post_ids_def comment_ids_def list_all_iff)
qed

lemma wf_Post_delete:
  assumes "wf_db d" shows "wf_db (Post_delete pk d)"
  using assms
  by (auto simp: wf_db_def Post_delete_def post_ids_def comment_ids_def list_all_iff distinct_map_filter)

lemma wf_Comment_objects_create:
  assumes "wf_db d" shows "wf_db (snd (Comment_objects_create now kwargs d))"
proof -
  let ?i = "next_id (comment_seq d) (comment_ids d)"
  have "\<forall>k\<in>set (comment_ids d). k \<le> ?i"
    using next_id_gt_elem [of _ "comment_ids d" "comment_seq d"] by (auto intro: less_imp_le)
  then show ?thesis using assms
    by (auto simp: wf_db_def Comment_objects_create_def Let_def post_ids_def comment_ids_def
        list_all_iff split: option.splits)
qed

lemma Comment_save_existing:
  assumes "c_post c \<in> set (post_ids d)" "c_id c \<in> set (comment_ids d)"
  shows "Comment_save now c d =
           (Inr (c\<lparr>c_updated_at := now\<rparr>),
            d\<lparr>comments := map (\<lambda>r. if c_id r = c_id c then c\<lparr>c_updated_at := now\<rparr> else r)
                              (comments d)\<rparr>)"
    and "comment_ids (snd (Comment_save now c d)) = comment_ids d"
  using assms by (simp_all add: Comment_save_def Let_def comment_ids_def map_replace_key_comp)

lemma wf_Comment_save:
  assumes "wf_db d" shows "wf_db (snd (Comment_save now c d))"
proof (cases "c_post c \<in> set (post_ids d)")
  case False
  then show ?thesis using assms by (simp add: Comment_save_def)
next
  case post: True
  show ?thesis
  proof (cases "c_id c \<in> set (comment_ids d)")
    case True
    have "list_all (\<lambda>r. c_post r \<in> set (post_ids d))
            (map (\<lambda>r. if c_id r = c_id c then c\<lparr>c_updated_at := now\<rparr> else r) (comments d))"
      using assms post by (auto simp: wf_db_def list_all_iff)
    then show ?thesis using assms Comment_save_existing(2) [OF post True, of now]
      by (simp add: wf_db_def Comment_save_existing(1) [OF post True] post_ids_def)
  next
    case False
    then show ?thesis using assms post
      by (auto simp: wf_db_def Comment_save_def Let_def post_ids_def comment_ids_def list_all_iff)
  qed
qed

lemma wf_Comment_delete:
  assumes "wf_db d" shows "wf_db (Comment_delete pk d)"
  using assms
  by (auto simp: wf_db_def Comment_delete_def post_ids_def comment_ids_def list_all_iff distinct_map_filter)

lemma wf_snd: "f = (r, d') \<Longrightarrow> wf_db (snd f) \<Longrightarrow> wf_db d'"
  by simp

lemma wf_update_branch:
  assumes "wf_db d" shows "wf_db (snd (update_branch now instance k cd d))"
proof (cases "Comment_objects_get d k (p_id instance)")
  case (Inl e)
  then show ?thesis using assms by (simp add: update_branch_def)
next
  case (Inr c)
  obtain r d' where s: "Comment_save now (Comment_setattrs cd c) d = (r, d')"
    by (cases "Comment_save now (Comment_setattrs cd c) d")
  then have "wf_db d'" using wf_Comment_save [OF assms, of now "Comment_setattrs cd c"] by simp
  then show ?thesis using Inr s by (cases r) (simp_all add: update_branch_def)
qed

lemma wf_create_branch:
  assumes "wf_db d" shows "wf_db (snd (create_branch now instance cd d))"
proof (cases "cd_post cd")
  case (Some k)
  then show ?thesis using assms by (simp add: create_branch_def)
next
  case None
  obtain r d' where s:
    "Comment_objects_create now (cd\<lparr>cd_post := Some (p_id instance)\<rparr>) d = (r, d')"
    by (cases "Comment_objects_create now (cd\<lparr>cd_post := Some (p_id instance)\<rparr>) d")
  then have "wf_db d'"
    using wf_Comment_objects_create [OF assms, of now "cd\<lparr>cd_post := Some (p_id instance)\<rparr>"]
    by simp
  then show ?thesis using None s by (cases r) (simp_all add: create_branch_def)
qed

lemma wf_merge_comment:
  assumes "wf_db d" shows "wf_db (snd (merge_comment now instance cd d))"
  using wf_update_branch [OF assms] wf_create_branch [OF assms]
  by (simp add: merge_comment_def split: option.splits)

lemma wf_merge_comments:
  "wf_db d \<Longrightarrow> wf_db (snd (merge_comments now instance cds d))"
proof (induction cds arbitrary: d)
  case Nil
  then show ?case by simp
next
  case (Cons cd cds)
  have w: "wf_db (snd (merge_comment now instance cd d))"
    using Cons.prems by (rule wf_merge_comment)
  show ?case
  proof (cases "merge_comment now instance cd d")
    case (Pair r d')
    with w have w': "wf_db d'" by simp
    show ?thesis using Pair w' Cons.IH [OF w'] by (cases r) simp_all
  qed
qed

lemma wf_PostSerializer_update:
  assumes "wf_db d" shows "wf_db (snd (PostSerializer_update now instance vd d))"
proof -
  obtain p d1 where s: "ModelSerializer_update now instance (vd\<lparr>pd_comments := None\<rparr>) d = (p, d1)"
    by (cases "ModelSerializer_update now instance (vd\<lparr>pd_comments := None\<rparr>) d")
  have w1: "wf_db d1"
    using wf_Post_save [OF assms, of now "Post_setattrs (vd\<lparr>pd_comments := None\<rparr>) instance"] s
    by (simp add: ModelSerializer_update_def)
  show ?thesis
  proof (cases "pd_comments vd")
    case None
    then show ?thesis using s w1 by (simp add: PostSerializer_update_def)
  next
    case (Some cds)
    then show ?thesis using s wf_merge_comments [OF w1, of now p cds]
      by (auto simp: PostSerializer_update_def split: prod.splits sum.splits)
  qed
qed

lemma snd_respond: "snd (respond ok render r) = snd r"
  by (auto simp: respond_def split: prod.splits sum.splits)

lemma wf_Post_update_view:
  assumes "wf_db d"
  shows "wf_db (snd (PostRetrieveUpdateDestroyAPIView_update now partial pk data d))"
proof (cases "Post_find d pk")
  case None
  then show ?thesis using assms by (simp add: PostRetrieveUpdateDestroyAPIView_update_def)
next
  case (Some inst)
  show ?thesis
  proof (cases "PostSerializer_is_valid partial data")
    case (Inl e)
    then show ?thesis using Some assms by (simp add: PostRetrieveUpdateDestroyAPIView_update_def)
  next
    case (Inr vd)
    obtain r d' where s: "PostSerializer_update now inst vd d = (r, d')"
      by (cases "PostSerializer_update now inst vd d")
    then have "wf_db d'" using wf_PostSerializer_update [OF assms, of now inst vd] by simp
    then show ?thesis using Some Inr s
      by (cases r) (simp_all add: PostRetrieveUpdateDestroyAPIView_update_def)
  qed
qed

lemma wf_Post_create_view:
  assumes "wf_db d" shows "wf_db (snd (PostListCreateAPIView_post now data d))"
proof (cases "PostSerializer_is_valid False data")
  case (Inl e)
  then show ?thesis using assms by (simp add: PostListCreateAPIView_post_def)
next
  case (Inr vd)
  obtain p d' where s: "PostSerializer_create now vd d = (p, d')"
    by (cases "PostSerializer_create now vd d")
  then have "wf_db d'"
    using wf_Post_objects_create [OF assms] by (auto simp: PostSerializer_create_def dest: wf_snd)
  then show ?thesis using Inr s by (simp add: PostListCreateAPIView_post_def)
qed

lemma wf_Comment_create_view:
  assumes "wf_db d" shows "wf_db (snd (CommentListCreateAPIView_post now post_pk data d))"
  using assms wf_Comment_objects_create [OF assms]
  by (simp add: CommentListCreateAPIView_post_def perform_create_def CommentSerializer_create_def
      split: sum.splits option.splits)

lemma wf_Comment_update_view:
  assumes "wf_db d"
  shows "wf_db (snd (CommentRetrieveUpdateDestroyAPIView_update now partial post_pk pk data d))"
  using assms wf_Comment_save [OF assms]
  by (simp add: CommentRetrieveUpdateDestroyAPIView_update_def CommentSerializer_update_def
      split: sum.splits)

lemma wf_urlpatterns:
  assumes "wf_db d" shows "wf_db (snd (urlpatterns now r d))"
proof (cases r)
  case GET_posts
  then show ?thesis using assms by (simp add: snd_respond PostListCreateAPIView_get_def)
next
  case (POST_posts data)
  then show ?thesis using wf_Post_create_view [OF assms] by (simp add: snd_respond)
next
  case (GET_post pk)
  then show ?thesis using assms
    by (auto simp: snd_respond PostRetrieveUpdateDestroyAPIView_get_def split: option.splits)
next
  case (PUT_post pk data)
  then show ?thesis using wf_Post_update_view [OF assms] by (simp add: snd_respond)
next
  case (PATCH_post pk data)
  then show ?thesis using wf_Post_update_view [OF assms] by (simp add: snd_respond)
next
  case (DELETE_post pk)
  then show ?thesis using assms wf_Post_delete [OF assms]
    by (auto simp: snd_respond PostRetrieveUpdateDestroyAPIView_delete_def split: option.splits)
next
  case (GET_comments post_pk)
  then show ?thesis using assms by (simp add: snd_respond CommentListCreateAPIView_get_def)
next
  case (POST_comments post_pk data)
  then show ?thesis using wf_Comment_create_view [OF assms] by (simp add: snd_respond)
next
  case (GET_comment post_pk pk)
  then show ?thesis using assms
    by (simp add: snd_respond CommentRetrieveUpdateDestroyAPIView_get_def)
next
  case (PUT_comment post_pk pk data)
  then show ?thesis using wf_Comment_update_view [OF assms] by (simp add: snd_respond)
next
  case (PATCH_comment post_pk pk data)
  then show ?thesis using wf_Comment_update_view [OF assms] by (simp add: snd_respond)
next
  case (DELETE_comment post_pk pk)
  then show ?thesis using assms wf_Comment_delete [OF assms]
    by (auto simp: snd_respond CommentRetrieveUpdateDestroyAPIView_delete_def split: sum.splits)
qed

lemma wf_serve: "wf_db d \<Longrightarrow> wf_db (serve rs d)"
  by (induction rs d rule: serve.induct) (simp_all add: wf_urlpatterns)

text \<open>Every store that requests can build from the empty one keeps the constraints.\<close>

lemma wf_reachable: "wf_db (serve rs empty_db)"
  by (rule wf_serve [OF wf_empty_db])

subsection \<open>Keys of deleted comments are not given out again\<close>

lemma retired_Comment_objects_create_auto:
  assumes "retired k d" "cd_id kwargs = None"
  shows "retired k (snd (Comment_objects_create now kwargs d))"
  using assms next_id_gt_seq [of "comment_seq d" "comment_ids d"]
  by (auto simp: retired_def Comment_objects_create_def Let_def comment_ids_def
      split: option.splits)

lemma retired_Comment_save_existing:
  assumes "retired k d" "c_id c \<in> set (comment_ids d)"
  shows "retired k (snd (Comment_save now c d))"
proof (cases "c_post c \<in> set (post_ids d)")
  case False
  then show ?thesis using assms by (simp add: Comment_save_def)
next
  case True
  show ?thesis using assms(1) Comment_save_existing(2) [OF True assms(2), of now]
    by (simp add: retired_def Comment_save_existing(1) [OF True assms(2)])
qed

lemma retired_same_comments:
  "retired k d \<Longrightarrow> comments d' = comments d \<Longrightarrow> comment_seq d' = comment_seq d \<Longrightarrow> retired k d'"
  by (simp add: retired_def comment_ids_def)

lemma retired_filter:
  "retired k d \<Longrightarrow> comments d' = filter P (comments d) \<Longrightarrow> comment_seq d' = comment_seq d
   \<Longrightarrow> retired k d'"
  by (auto simp: retired_def comment_ids_def)

lemma Post_save_comments:
  "comments (snd (Post_save now p d)) = comments d"
  "comment_seq (snd (Post_save now p d)) = comment_seq d"
  by (simp_all add: Post_save_def Let_def)

lemma PostSerializer_update_no_comments:
  assumes "pd_comments vd = None"
  shows "comments (snd (PostSerializer_update now inst vd d)) = comments d"
    and "comment_seq (snd (PostSerializer_update now inst vd d)) = comment_seq d"
  using assms Post_save_comments [of now "Post_setattrs (vd\<lparr>pd_comments := None\<rparr>) inst" d]
  by (auto simp: PostSerializer_update_def ModelSerializer_update_def split: prod.splits)

lemma PostSerializer_is_valid_no_comments:
  "PostSerializer_is_valid partial data = Inr vd \<Longrightarrow> pd_comments vd = None"
  by (auto simp: PostSerializer_is_valid_def Let_def split: if_splits)

lemma Post_update_view_comments:
  "comments (snd (PostRetrieveUpdateDestroyAPIView_update now partial pk data d)) = comments d"
  "comment_seq (snd (PostRetrieveUpdateDestroyAPIView_update now partial pk data d)) = comment_seq d"
proof -
  let ?r = "PostRetrieveUpdateDestroyAPIView_update now partial pk data d"
  have "comments (snd ?r) = comments d \<and> comment_seq (snd ?r) = comment_seq d"
  proof (cases "Post_find d pk")
    case None
    then show ?thesis by (simp add: PostRetrieveUpdateDestroyAPIView_update_def)
  next
    case (Some inst)
    show ?thesis
    proof (cases "PostSerializer_is_valid partial data")
      case (Inl e)
      then show ?thesis using Some by (simp add: PostRetrieveUpdateDestroyAPIView_update_def)
    next
      case (Inr vd)
      note nc = PostSerializer_update_no_comments [OF PostSerializer_is_valid_no_comments [OF Inr], of now inst d]
      obtain r d' where s: "PostSerializer_update now inst vd d = (r, d')"
        by (cases "PostSerializer_update now inst vd d")
      with nc have "comments d' = comments d" "comment_seq d' = comment_seq d" by simp_all
      then show ?thesis using Some Inr s
        by (cases r) (simp_all add: PostRetrieveUpdateDestroyAPIView_update_def)
    qed
  qed
  then show "comments (snd ?r) = comments d" "comment_seq (snd ?r) = comment_seq d" by simp_all
qed

lemma Post_create_view_comments:
  "comments (snd (PostListCreateAPIView_post now data d)) = comments d"
  "comment_seq (snd (PostListCreateAPIView_post now data d)) = comment_seq d"
  by (simp_all add: PostListCreateAPIView_post_def PostSerializer_create_def
      Post_objects_create_def Let_def split: sum.splits)

lemma CommentSerializer_is_valid_no_id:
  "CommentSerializer_is_valid partial d data = Inr vd \<Longrightarrow>
     cd_id vd = None \<and> cd_created_at vd = None \<and> cd_updated_at vd = None \<and>
     cd_post vd = cd_post data \<and>
     (case cd_post vd of None \<Rightarrow> partial | Some k \<Rightarrow> k \<in> set (post_ids d))"
  by (auto simp: CommentSerializer_is_valid_def Let_def field_error_def
      PrimaryKeyRelatedField_valid_def split: if_splits option.splits)

lemma find_filter: "find P (filter Q xs) = find (\<lambda>x. Q x \<and> P x) xs"
  by (induction xs) auto

lemma get_object_eq:
  "get_object post_pk pk d =
     (if \<not> fits_integer pk then Inl Http404
      else if \<not> fits_integer post_pk then Inl OverflowError
      else
        (case find (\<lambda>c. c_post c = post_pk \<and> c_id c = pk) (comments d) of
           None \<Rightarrow> Inl Http404
         | Some c \<Rightarrow> Inr c))"
  by (simp add: get_object_def CommentRetrieveUpdateDestroyAPIView_get_queryset_def
      Comment_objects_filter_def find_filter)

lemma get_object_Inr:
  "get_object post_pk pk d = Inr c \<Longrightarrow> c \<in> set (comments d) \<and> c_id c = pk \<and> c_post c = post_pk"
  by (auto simp: get_object_eq find_Some_iff split: if_splits option.splits dest: nth_mem)

lemma get_object_404:
  assumes "\<not> (\<exists>c\<in>set (comments d). c_id c = pk \<and> c_post c = post_pk)"
    and "fits_integer post_pk"
  shows "get_object post_pk pk d = Inl Http404"
proof (cases "find (\<lambda>c. c_post c = post_pk \<and> c_id c = pk) (comments d)")
  case None
  then show ?thesis using assms(2) by (simp add: get_object_eq)
next
  case (Some c)
  then have "c \<in> set (comments d) \<and> c_post c = post_pk \<and> c_id c = pk"
    by (auto simp: find_Some_iff dest: nth_mem)
  with assms(1) show ?thesis by blast
qed


lemma retired_urlpatterns:
  assumes "retired k d" shows "retired k (snd (urlpatterns now r d))"
proof (cases r)
  case GET_posts
  then show ?thesis using assms by (simp add: snd_respond PostListCreateAPIView_get_def)
next
  case (POST_posts data)
  then show ?thesis using assms Post_create_view_comments [of now data d]
    by (simp add: snd_respond retired_same_comments)
next
  case (GET_post pk)
  then show ?thesis using assms
    by (auto simp: snd_respond PostRetrieveUpdateDestroyAPIView_get_def split: option.splits)
next
  case (PUT_post pk data)
  then show ?thesis using assms Post_update_view_comments [of now False pk data d]
    by (simp add: snd_respond retired_same_comments)
next
  case (PATCH_post pk data)
  then show ?thesis using assms Post_update_view_comments [of now True pk data d]
    by (simp add: snd_respond retired_same_comments)
next
  case (DELETE_post pk)
  then show ?thesis using assms
    by (auto simp: snd_respond PostRetrieveUpdateDestroyAPIView_delete_def Post_delete_def
        retired_def comment_ids_def split: option.splits)
next
  case (GET_comments post_pk)
  then show ?thesis using assms by (simp add: snd_respond CommentListCreateAPIView_get_def)
next
  case (POST_comments post_pk data)
  show ?thesis
  proof (cases "CommentSerializer_is_valid False d data")
    case (Inl e)
    then show ?thesis using assms POST_comments
      by (simp add: snd_respond CommentListCreateAPIView_post_def)
  next
    case (Inr vd)
    then have "cd_id vd = None" by (simp add: CommentSerializer_is_valid_no_id)
    then show ?thesis using assms POST_comments Inr
        retired_Comment_objects_create_auto [OF assms, of _ now]
      by (simp add: snd_respond CommentListCreateAPIView_post_def perform_create_def
          CommentSerializer_create_def split: option.splits)
  qed
next
  case (GET_comment post_pk pk)
  then show ?thesis using assms
    by (simp add: snd_respond CommentRetrieveUpdateDestroyAPIView_get_def)
next
  case (PUT_comment post_pk pk data)
  have "retired k (snd (CommentRetrieveUpdateDestroyAPIView_update now partial post_pk pk data d))"
    for partial
  proof (cases "get_object post_pk pk d")
    case (Inl e)
    then show ?thesis using assms by (simp add: CommentRetrieveUpdateDestroyAPIView_update_def)
  next
    case (Inr c)
    show ?thesis
    proof (cases "CommentSerializer_is_valid partial d data")
      case (Inl e)
      then show ?thesis using assms Inr by (simp add: CommentRetrieveUpdateDestroyAPIView_update_def)
    next
      case v: (Inr vd)
      have "c_id (Comment_setattrs vd c) \<in> set (comment_ids d)"
        using get_object_Inr [OF Inr] CommentSerializer_is_valid_no_id [OF v]
        by (auto simp: Comment_setattrs_def comment_ids_def)
      then show ?thesis using Inr v retired_Comment_save_existing [OF assms]
        by (simp add: CommentRetrieveUpdateDestroyAPIView_update_def CommentSerializer_update_def)
    qed
  qed
  then show ?thesis using PUT_comment by (simp add: snd_respond)
next
  case (PATCH_comment post_pk pk data)
  have "retired k (snd (CommentRetrieveUpdateDestroyAPIView_update now partial post_pk pk data d))"
    for partial
  proof (cases "get_object post_pk pk d")
    case (Inl e)
    then show ?thesis using assms by (simp add: CommentRetrieveUpdateDestroyAPIView_update_def)
  next
    case (Inr c)
    show ?thesis
    proof (cases "CommentSerializer_is_valid partial d data")
      case (Inl e)
      then show ?thesis using assms Inr by (simp add: CommentRetrieveUpdateDestroyAPIView_update_def)
    next
      case v: (Inr vd)
      have "c_id (Comment_setattrs vd c) \<in> set (comment_ids d)"
        using get_object_Inr [OF Inr] CommentSerializer_is_valid_no_id [OF v]
        by (auto simp: Comment_setattrs_def comment_ids_def)
      then show ?thesis using Inr v retired_Comment_save_existing [OF assms]
        by (simp add: CommentRetrieveUpdateDestroyAPIView_update_def CommentSerializer_update_def)
    qed
  qed
  then show ?thesis using PATCH_comment by (simp add: snd_respond)
next
  case (DELETE_comment post_pk pk)
  then show ?thesis using assms
    by (auto simp: snd_respond CommentRetrieveUpdateDestroyAPIView_delete_def Comment_delete_def
        retired_def comment_ids_def split: sum.splits)
qed

lemma retired_serve: "retired k d \<Longrightarrow> retired k (serve rs d)"
  by (induction rs d rule: serve.induct) (simp_all add: retired_urlpatterns)

lemma retired_not_found:
  assumes "retired k d" "fits_integer post_pk"
  shows "urlpatterns now (GET_comment post_pk k) d = ((404, ErrorJSON Http404), d)"
proof -
  have "\<not> (\<exists>c\<in>set (comments d). c_id c = k \<and> c_post c = post_pk)"
    using assms(1) by (auto simp: retired_def comment_ids_def)
  then have "get_object post_pk k d = Inl Http404" using assms(2) by (rule get_object_404)
  then show ?thesis
    by (simp add: respond_def CommentRetrieveUpdateDestroyAPIView_get_def status_of_error_def)
qed


lemma example_db_reachable:
  "serve [(10, POST_posts (post_body (Some ''A'') (Some ''B''))),
          (11, POST_comments 1 (comment_body (Some 1) (Some ''x'') (Some ''hi''))),
          (12, POST_posts (post_body (Some ''C'') (Some ''D''))),
          (13, POST_comments 2 (comment_body (Some 2) (Some ''y'') (Some ''ho''))),
          (14, POST_comments 1 (comment_body (Some 1) (Some ''z'') (Some ''hum'')))] empty_db
   = example_db"
  by code_simp

lemma wf_example_db: "wf_db example_db"
  by code_simp

lemma sorted_desc:
  assumes "sorted (map (\<lambda>c. - c_created_at c) xs)" "i < length xs" "j < length xs"
    "c_created_at (xs ! i) < c_created_at (xs ! j)"
  shows "j < i"
proof (rule ccontr)
  assume "\<not> j < i"
  then have "i \<le> j" by simp
  with assms(1,3) have "map (\<lambda>c. - c_created_at c) xs ! i \<le> map (\<lambda>c. - c_created_at c) xs ! j"
    by (simp add: sorted_iff_nth_mono)
  with assms(2,3,4) show False by simp
qed

lemma filter_no_post:
  assumes "list_all (\<lambda>c. c_post c \<in> set (post_ids d)) (comments d)" "post_pk \<notin> set (post_ids d)"
  shows "filter (\<lambda>c. c_post c = post_pk) (comments d) = []"
  using assms by (auto simp: filter_empty_conv list_all_iff)

subsection \<open>Lookups under the Post of the URL\<close>


subsection \<open>What the nested merge leaves alone\<close>

lemma Comment_save_keeps:
  "c0 \<in> set (comments d) \<Longrightarrow> c_id c0 \<noteq> c_id c \<Longrightarrow>
     c0 \<in> set (comments (snd (Comment_save now c d)))"
  by (auto simp: Comment_save_def Let_def)

lemma Comment_save_ids:
  "set (comment_ids d) \<subseteq> set (comment_ids (snd (Comment_save now c d)))"
proof (cases "c_post c \<in> set (post_ids d) \<and> c_id c \<in> set (comment_ids d)")
  case True
  then show ?thesis using Comment_save_existing(2) [of c d now] by simp
next
  case False
  then show ?thesis by (auto simp: Comment_save_def Let_def comment_ids_def)
qed

lemma Comment_save_length:
  "length (comments d) \<le> length (comments (snd (Comment_save now c d)))"
  by (simp add: Comment_save_def Let_def)

lemma Comment_objects_create_keeps:
  "c0 \<in> set (comments d) \<Longrightarrow> c0 \<in> set (comments (snd (Comment_objects_create now kwargs d)))"
  by (auto simp: Comment_objects_create_def Let_def split: option.splits)

lemma Comment_objects_create_ids:
  "set (comment_ids d) \<subseteq> set (comment_ids (snd (Comment_objects_create now kwargs d)))"
  by (auto simp: Comment_objects_create_def Let_def comment_ids_def split: option.splits)

lemma Comment_objects_create_length:
  "length (comments d) \<le> length (comments (snd (Comment_objects_create now kwargs d)))"
  by (simp add: Comment_objects_create_def Let_def split: option.splits)

lemma Comment_objects_get_Inr:
  "Comment_objects_get d k post_pk = Inr c \<Longrightarrow>
     c \<in> set (comments d) \<and> c_id c = k \<and> c_post c = post_pk"
  by (auto simp: Comment_objects_get_def find_Some_iff split: option.splits dest: nth_mem)

lemma snd_update_branch:
  "snd (update_branch now inst k cd d) =
     (case Comment_objects_get d k (p_id inst) of
        Inl e \<Rightarrow> d
      | Inr comment \<Rightarrow> snd (Comment_save now (Comment_setattrs cd comment) d))"
  by (simp add: update_branch_def split: sum.splits prod.splits)

lemma snd_create_branch:
  "snd (create_branch now inst cd d) =
     (if cd_post cd \<noteq> None then d
      else snd (Comment_objects_create now (cd\<lparr>cd_post := Some (p_id inst)\<rparr>) d))"
  by (simp add: create_branch_def split: sum.splits prod.splits)

lemma merge_comment_keeps:
  assumes "c0 \<in> set (comments d)" "cd_id cd \<noteq> Some (c_id c0)"
  shows "c0 \<in> set (comments (snd (merge_comment now inst cd d)))"
proof (cases "cd_id cd")
  case None
  then show ?thesis using assms(1)
    by (simp add: merge_comment_def snd_create_branch Comment_objects_create_keeps)
next
  case (Some k)
  show ?thesis
  proof (cases "k = 0")
    case True
    then show ?thesis using Some assms(1)
      by (simp add: merge_comment_def snd_create_branch Comment_objects_create_keeps)
  next
    case False
    show ?thesis
    proof (cases "Comment_objects_get d k (p_id inst)")
      case (Inl e)
      then show ?thesis using Some False assms(1) by (simp add: merge_comment_def snd_update_branch)
    next
      case (Inr comment)
      have "c_id (Comment_setattrs cd comment) = k" using Some by (simp add: Comment_setattrs_def)
      then have "c_id c0 \<noteq> c_id (Comment_setattrs cd comment)" using assms(2) Some by auto
      then show ?thesis using Some False Inr assms(1)
        by (simp add: merge_comment_def snd_update_branch Comment_save_keeps)
    qed
  qed
qed

lemma merge_comment_ids:
  "set (comment_ids d) \<subseteq> set (comment_ids (snd (merge_comment now inst cd d)))"
  using Comment_save_ids Comment_objects_create_ids
  by (simp add: merge_comment_def snd_update_branch snd_create_branch
      split: option.splits sum.splits)

lemma merge_comment_length:
  "length (comments d) \<le> length (comments (snd (merge_comment now inst cd d)))"
  using Comment_save_length Comment_objects_create_length
  by (simp add: merge_comment_def snd_update_branch snd_create_branch
      split: option.splits sum.splits)

lemma snd_merge_comments_Cons:
  "snd (merge_comments now inst (cd # cds) d) =
     (case fst (merge_comment now inst cd d) of
        Inl e \<Rightarrow> snd (merge_comment now inst cd d)
      | Inr u \<Rightarrow> snd (merge_comments now inst cds (snd (merge_comment now inst cd d))))"
  by (simp split: prod.splits sum.splits)

lemma merge_comments_keeps:
  "c0 \<in> set (comments d) \<Longrightarrow> Some (c_id c0) \<notin> set (map cd_id cds) \<Longrightarrow>
     c0 \<in> set (comments (snd (merge_comments now inst cds d)))"
proof (induction cds arbitrary: d)
  case Nil
  then show ?case by simp
next
  case (Cons cd cds)
  from Cons.prems have k: "c0 \<in> set (comments (snd (merge_comment now inst cd d)))"
    by (intro merge_comment_keeps) auto
  from Cons.prems have "Some (c_id c0) \<notin> set (map cd_id cds)" by simp
  from Cons.IH [OF k this] k show ?case
    by (simp only: snd_merge_comments_Cons split: sum.splits) simp
qed

lemma merge_comments_ids:
  "set (comment_ids d) \<subseteq> set (comment_ids (snd (merge_comments now inst cds d)))"
proof (induction cds arbitrary: d)
  case Nil
  then show ?case by simp
next
  case (Cons cd cds)
  from merge_comment_ids [of d now inst cd]
    Cons.IH [of "snd (merge_comment now inst cd d)"]
  show ?case
    by (simp only: snd_merge_comments_Cons split: sum.splits) auto
qed

lemma merge_comments_length:
  "length (comments d) \<le> length (comments (snd (merge_comments now inst cds d)))"
proof (induction cds arbitrary: d)
  case Nil
  then show ?case by simp
next
  case (Cons cd cds)
  from merge_comment_length [of d now inst cd]
    Cons.IH [of "snd (merge_comment now inst cd d)"]
  show ?case
    by (simp only: snd_merge_comments_Cons split: sum.splits) auto
qed

lemma snd_PostSerializer_update:
  "snd (PostSerializer_update now inst vd d) =
     (case pd_comments vd of
        None \<Rightarrow> snd (Post_save now (Post_setattrs (vd\<lparr>pd_comments := None\<rparr>) inst) d)
      | Some cds \<Rightarrow>
          snd (merge_comments now
                 (fst (Post_save now (Post_setattrs (vd\<lparr>pd_comments := None\<rparr>) inst) d)) cds
                 (snd (Post_save now (Post_setattrs (vd\<lparr>pd_comments := None\<rparr>) inst) d))))"
  by (simp add: PostSerializer_update_def ModelSerializer_update_def
      split: prod.splits option.splits sum.splits)

subsection \<open>Validation and creation\<close>

lemma CommentSerializer_is_valid_Inl:
  "CommentSerializer_is_valid partial d data = Inl e \<Longrightarrow> status_of_error e = 400"
  by (auto simp: CommentSerializer_is_valid_def Let_def status_of_error_def split: if_splits)

lemma Comment_objects_create_auto:
  assumes "cd_id kwargs = None" "cd_post kwargs = Some post_pk" "post_pk \<in> set (post_ids d)"
  shows "\<exists>c. Comment_objects_create now kwargs d =
               (Inr c, d\<lparr>comments := comments d @ [c], comment_seq := c_id c\<rparr>) \<and>
             c_id c = next_id (comment_seq d) (comment_ids d) \<and> c_post c = post_pk \<and>
             c_author c = (case cd_author kwargs of None \<Rightarrow> [] | Some a \<Rightarrow> a) \<and>
             c_content c = (case cd_content kwargs of None \<Rightarrow> [] | Some t \<Rightarrow> t) \<and>
             c_created_at c = now \<and> c_updated_at c = now"
  using assms next_id_fresh [of "comment_seq d" "comment_ids d"]
    next_id_gt_seq [of "comment_seq d" "comment_ids d"]
  by (simp add: Comment_objects_create_def Let_def max_def)

lemma create_branch_cases:
  "create_branch now inst cd d =
     (if cd_post cd \<noteq> None then (Inl TypeError, d)
      else if p_id inst \<notin> set (post_ids d) then (Inl IntegrityError, d)
      else
        (let i = (case cd_id cd of None \<Rightarrow> next_id (comment_seq d) (comment_ids d) | Some k \<Rightarrow> k);
             c = \<lparr>c_id = i, c_post = p_id inst,
                  c_author = (case cd_author cd of None \<Rightarrow> [] | Some a \<Rightarrow> a),
                  c_content = (case cd_content cd of None \<Rightarrow> [] | Some t \<Rightarrow> t),
                  c_created_at = now, c_updated_at = now\<rparr>
         in if i \<in> set (comment_ids d) then (Inl IntegrityError, d)
            else (Inr (), d\<lparr>comments := comments d @ [c],
                           comment_seq := max (comment_seq d) i\<rparr>)))"
  by (simp add: create_branch_def Comment_objects_create_def Let_def)

subsection \<open>What the declared fields of the serializers do to a request\<close>

text \<open>
  \<open>comments\<close> is read-only in PostSerializer: a request to update a Post gives the same
  answer and the same store with and without a \<open>comments\<close> list in its body.
\<close>

lemma post_update_ignores_comments:
  "PostRetrieveUpdateDestroyAPIView_update now partial pk data d =
   PostRetrieveUpdateDestroyAPIView_update now partial pk (data\<lparr>pd_comments := None\<rparr>) d"
proof -
  have "PostSerializer_is_valid partial (data\<lparr>pd_comments := None\<rparr>)
          = PostSerializer_is_valid partial data"
    by (simp add: PostSerializer_is_valid_def)
  then show ?thesis
    by (simp add: PostRetrieveUpdateDestroyAPIView_update_def split: option.splits)
qed

text \<open>
  Called directly with validated data that does hold a \<open>comments\<close> list, the
  \<open>update\<close> method merges: here it rewrites Comment 1, creates Comment 4 and then stops
  at the identifier of a Comment of another Post.
\<close>

lemma update_method_merges_when_called_with_comments:
  "PostSerializer_update 20
     \<lparr>p_id = 1, p_title = ''A'', p_content = ''B'', p_created_at = 10, p_updated_at = 10\<rparr>
     \<lparr>pd_title = None, pd_content = None,
      pd_comments = Some [comment_element (Some 1) None (Some ''edited''),
                          comment_element None (Some ''w'') (Some ''new''),
                          comment_element (Some 2) None (Some ''not mine'')]\<rparr> example_db
   = (Inl DoesNotExist,
      \<lparr>posts =
         [\<lparr>p_id = 1, p_title = ''A'', p_content = ''B'', p_created_at = 10, p_updated_at = 20\<rparr>,
          \<lparr>p_id = 2, p_title = ''C'', p_content = ''D'', p_created_at = 12, p_updated_at = 12\<rparr>],
       comments =
         [\<lparr>c_id = 1, c_post = 1, c_author = ''x'', c_content = ''edited'',
           c_created_at = 11, c_updated_at = 20\<rparr>,
          \<lparr>c_id = 2, c_post = 2, c_author = ''y'', c_content = ''ho'',
           c_created_at = 13, c_updated_at = 13\<rparr>,
          \<lparr>c_id = 3, c_post = 1, c_author = ''z'', c_content = ''hum'',
           c_created_at = 14, c_updated_at = 14\<rparr>,
          \<lparr>c_id = 4, c_post = 1, c_author = ''w'', c_content = ''new'',
           c_created_at = 20, c_updated_at = 20\<rparr>],
       post_seq = 2, comment_seq = 4\<rparr>)"
  by code_simp

text \<open>
  \<open>post\<close> is a required, writable field of CommentSerializer: a create without it is
  refused whatever the URL says, and an update that submits it re-parents the Comment.
\<close>

lemma comment_create_needs_body_post:
  assumes "cd_post data = None"
  shows "\<exists>fields. urlpatterns now (POST_comments post_pk data) d =
           ((400, ErrorJSON (ValidationError (''post'' # fields))), d)"
  using assms
  by (simp add: respond_def CommentListCreateAPIView_post_def CommentSerializer_is_valid_def
      PrimaryKeyRelatedField_valid_def field_error_def status_of_error_def)

lemma comment_update_moves_comment:
  assumes "get_object post_pk pk d = Inr c"
    and "CommentSerializer_is_valid partial d data = Inr vd"
    and "cd_post data = Some q"
  shows "\<exists>c'. CommentRetrieveUpdateDestroyAPIView_update now partial post_pk pk data d =
                (Inr c', d\<lparr>comments := map (\<lambda>r. if c_id r = pk then c' else r) (comments d)\<rparr>) \<and>
              c_id c' = pk \<and> c_post c' = q"
proof -
  note v = CommentSerializer_is_valid_no_id [OF assms(2)]
  note g = get_object_Inr [OF assms(1)]
  let ?c = "Comment_setattrs vd c"
  have i: "c_id ?c = pk" using v g by (simp add: Comment_setattrs_def)
  have p: "c_post ?c = q" using v assms(3) by (simp add: Comment_setattrs_def)
  have "q \<in> set (post_ids d)" using v assms(3) by auto
  then have a: "c_post ?c \<in> set (post_ids d)" using p by simp
  have "pk \<in> set (comment_ids d)" using g by (force simp: comment_ids_def)
  then have b: "c_id ?c \<in> set (comment_ids d)" by (simp only: i)
  show ?thesis
    using assms(1,2) Comment_save_existing(1) [OF a b, of now] i p
    by (simp add: CommentRetrieveUpdateDestroyAPIView_update_def CommentSerializer_update_def)
qed

text \<open>
  The other comment operations keep to the Post of the URL.
\<close>

lemma comment_scope_kept_by_the_other_operations:
  "CommentListCreateAPIView_get_queryset post_pk d = Inr rows \<Longrightarrow>
     list_all (\<lambda>c. c_post c = post_pk) rows"
  "CommentListCreateAPIView_post now post_pk data d = (Inr c, d') \<Longrightarrow> c_post c = post_pk"
  "CommentRetrieveUpdateDestroyAPIView_get post_pk pk d = (Inr c, d') \<Longrightarrow> c_post c = post_pk"
  "CommentRetrieveUpdateDestroyAPIView_delete post_pk pk d = (Inr u, d') \<Longrightarrow>
     \<exists>c\<in>set (comments d). c_id c = pk \<and> c_post c = post_pk"
proof -
  show "list_all (\<lambda>c. c_post c = post_pk) rows"
    if "CommentListCreateAPIView_get_queryset post_pk d = Inr rows"
    using that
    by (auto simp: CommentListCreateAPIView_get_queryset_def Comment_objects_filter_def
        list_all_iff split: if_splits)
  show "c_post c = post_pk" if "CommentListCreateAPIView_post now post_pk data d = (Inr c, d')"
    using that
    by (auto simp: CommentListCreateAPIView_post_def perform_create_def CommentSerializer_create_def
        Comment_objects_create_def Let_def dest: Post_find_Some
        split: sum.splits option.splits if_splits)
  show "c_post c = post_pk" if "CommentRetrieveUpdateDestroyAPIView_get post_pk pk d = (Inr c, d')"
    using that get_object_Inr by (auto simp: CommentRetrieveUpdateDestroyAPIView_get_def)
  show "\<exists>c\<in>set (comments d). c_id c = pk \<and> c_post c = post_pk"
    if "CommentRetrieveUpdateDestroyAPIView_delete post_pk pk d = (Inr u, d')"
    using that
    by (auto simp: CommentRetrieveUpdateDestroyAPIView_delete_def split: sum.splits
        dest!: get_object_Inr)
qed

section \<open>The claims\<close>

text \<open>
  C1. The claim: a Post update whose payload has a \<open>comments\<close> list rewrites the listed
  Comments of the Post that carry an existing identifier, creates the elements without
  identifier, and fails on an identifier that is not a Comment of the Post. The code
  declares \<open>comments\<close> read-only, so the list never reaches \<open>PostSerializer.update\<close>:
  the request below lists Comment 1 with new content, a new Comment, and Comment 2, which
  belongs to Post 2. It is answered 200; Comment 1 keeps its content, nothing is created,
  nothing fails.
\<close>

theorem post_update_with_comments_payload_changes_no_comment:
  "urlpatterns 20
     (PATCH_post 1 \<lparr>pd_title = None, pd_content = None,
        pd_comments = Some [comment_element (Some 1) None (Some ''edited''),
                            comment_element None (Some ''w'') (Some ''new''),
                            comment_element (Some 2) None (Some ''not mine'')]\<rparr>) example_db
   = ((200, PostJSON (\<lparr>p_id = 1, p_title = ''A'', p_content = ''B'', p_created_at = 10, p_updated_at = 20\<rparr>,
        [\<lparr>c_id = 1, c_post = 1, c_author = ''x'', c_content = ''hi'',
          c_created_at = 11, c_updated_at = 11\<rparr>,
         \<lparr>c_id = 3, c_post = 1, c_author = ''z'', c_content = ''hum'',
          c_created_at = 14, c_updated_at = 14\<rparr>])),
      example_db\<lparr>posts :=
         [\<lparr>p_id = 1, p_title = ''A'', p_content = ''B'', p_created_at = 10, p_updated_at = 20\<rparr>,
          \<lparr>p_id = 2, p_title = ''C'', p_content = ''D'', p_created_at = 12, p_updated_at = 12\<rparr>]\<rparr>)"
  by code_simp

text \<open>
  C2. The claim: after any comment-scoped operation the Comment's parent is the Post of
  the URL. An update through \<open>/posts/1/comments/1/\<close> whose body names Post 2 is accepted
  and leaves Comment 1 attached to Post 2: the update path, unlike \<open>perform_create\<close>,
  does not force the parent.
\<close>

theorem comment_update_moves_comment_to_body_post:
  "urlpatterns 20 (PUT_comment 1 1 (comment_body (Some 2) (Some ''x'') (Some ''hi''))) example_db
   = ((200, CommentJSON \<lparr>c_id = 1, c_post = 2, c_author = ''x'', c_content = ''hi'',
                         c_created_at = 11, c_updated_at = 20\<rparr>),
      example_db\<lparr>comments :=
        [\<lparr>c_id = 1, c_post = 2, c_author = ''x'', c_content = ''hi'',
          c_created_at = 11, c_updated_at = 20\<rparr>,
         \<lparr>c_id = 2, c_post = 2, c_author = ''y'', c_content = ''ho'',
          c_created_at = 13, c_updated_at = 13\<rparr>,
         \<lparr>c_id = 3, c_post = 1, c_author = ''z'', c_content = ''hum'',
          c_created_at = 14, c_updated_at = 14\<rparr>]\<rparr>)"
  by code_simp

text \<open>
  C3, as amended. A comment-create request whose body fails validation is refused with a
  validation error (400) before the Post of the URL is looked up, and creates nothing. A
  request whose body passes validation is answered 404, creating nothing, when the Post
  of the URL does not exist; when it exists the request is answered 201 and the new
  Comment, under a fresh identifier, is attached to the Post of the URL whatever Post the
  body named.
\<close>

theorem comment_create_forces_url_post:
  "(\<forall>e. CommentSerializer_is_valid False d data = Inl e \<longrightarrow>
        urlpatterns now (POST_comments post_pk data) d = ((400, ErrorJSON e), d)) \<and>
   (\<forall>vd. CommentSerializer_is_valid False d data = Inr vd \<longrightarrow>
      (Post_find d post_pk = None \<longrightarrow>
         urlpatterns now (POST_comments post_pk data) d = ((404, ErrorJSON Http404), d)) \<and>
      (Post_find d post_pk \<noteq> None \<longrightarrow>
         (\<exists>c. urlpatterns now (POST_comments post_pk data) d =
                 ((201, CommentJSON c), d\<lparr>comments := comments d @ [c], comment_seq := c_id c\<rparr>) \<and>
              c_post c = post_pk \<and> c_id c \<notin> set (comment_ids d))))"
proof -
  have 1: "urlpatterns now (POST_comments post_pk data) d = ((400, ErrorJSON e), d)"
    if "CommentSerializer_is_valid False d data = Inl e" for e
    using that CommentSerializer_is_valid_Inl [OF that]
    by (simp add: respond_def CommentListCreateAPIView_post_def)
  have 2: "urlpatterns now (POST_comments post_pk data) d = ((404, ErrorJSON Http404), d)"
    if "CommentSerializer_is_valid False d data = Inr vd" "Post_find d post_pk = None" for vd
    using that
    by (simp add: respond_def CommentListCreateAPIView_post_def perform_create_def
        status_of_error_def)
  have 3: "\<exists>c. urlpatterns now (POST_comments post_pk data) d =
                 ((201, CommentJSON c), d\<lparr>comments := comments d @ [c], comment_seq := c_id c\<rparr>) \<and>
              c_post c = post_pk \<and> c_id c \<notin> set (comment_ids d)"
    if v: "CommentSerializer_is_valid False d data = Inr vd" and f: "Post_find d post_pk \<noteq> None"
    for vd
  proof -
    obtain p where p: "Post_find d post_pk = Some p" using f by auto
    then have pk: "p_id p = post_pk" by (simp add: Post_find_Some)
    have "post_pk \<in> set (post_ids d)" using f by (simp add: Post_find_None)
    moreover have "cd_id (vd\<lparr>cd_post := Some post_pk\<rparr>) = None"
      using CommentSerializer_is_valid_no_id [OF v] by simp
    ultimately obtain c where c:
      "Comment_objects_create now (vd\<lparr>cd_post := Some post_pk\<rparr>) d =
         (Inr c, d\<lparr>comments := comments d @ [c], comment_seq := c_id c\<rparr>)"
      "c_id c = next_id (comment_seq d) (comment_ids d)" "c_post c = post_pk"
      using Comment_objects_create_auto [of "vd\<lparr>cd_post := Some post_pk\<rparr>" post_pk d now]
      by auto
    have "c_id c \<notin> set (comment_ids d)" using c(2) next_id_fresh by simp
    then show ?thesis using v p pk c
      by (simp add: respond_def CommentListCreateAPIView_post_def perform_create_def
          CommentSerializer_create_def)
  qed
  from 1 2 3 show ?thesis by blast
qed

text \<open>
  The claim as it stands fails: Post 999 does not exist, the body lacks \<open>author\<close>, and
  the answer is the validation error, not 404.
\<close>

theorem comment_create_missing_post_counterexample:
  "Post_find example_db 999 = None \<and>
   urlpatterns 20 (POST_comments 999 (comment_body (Some 1) None (Some ''hi''))) example_db
     = ((400, ErrorJSON (ValidationError [''author''])), example_db)"
  by code_simp

theorem comment_create_forces_url_post_witness:
  "CommentSerializer_is_valid False example_db (comment_body (Some 2) (Some ''v'') (Some ''late''))
     = Inr (comment_body (Some 2) (Some ''v'') (Some ''late'')) \<and>
   Post_find example_db 1 \<noteq> None \<and>
   urlpatterns 20 (POST_comments 1 (comment_body (Some 2) (Some ''v'') (Some ''late''))) example_db
     = ((201, CommentJSON \<lparr>c_id = 4, c_post = 1, c_author = ''v'', c_content = ''late'',
                           c_created_at = 20, c_updated_at = 20\<rparr>),
        example_db\<lparr>comments := comments example_db @
                     [\<lparr>c_id = 4, c_post = 1, c_author = ''v'', c_content = ''late'',
                       c_created_at = 20, c_updated_at = 20\<rparr>],
                   comment_seq := 4\<rparr>) \<and>
   Post_find example_db 999 = None \<and>
   urlpatterns 20 (POST_comments 999 (comment_body (Some 2) (Some ''v'') (Some ''late''))) example_db
     = ((404, ErrorJSON Http404), example_db) \<and>
   CommentSerializer_is_valid False example_db (comment_body (Some 1) None (Some ''hi''))
     = Inl (ValidationError [''author'']) \<and>
   urlpatterns 20 (POST_comments 999 (comment_body (Some 1) None (Some ''hi''))) example_db
     = ((400, ErrorJSON (ValidationError [''author''])), example_db)"
proof -
  let ?b = "comment_body (Some 2) (Some ''v'') (Some ''late'')"
  have v: "CommentSerializer_is_valid False example_db ?b = Inr ?b" by code_simp
  have f1: "Post_find example_db 1 \<noteq> None" by code_simp
  have f2: "Post_find example_db 999 = None" by code_simp
  have i: "CommentSerializer_is_valid False example_db (comment_body (Some 1) None (Some ''hi''))
     = Inl (ValidationError [''author''])" by code_simp
  have e: "urlpatterns 20 (POST_comments 1 ?b) example_db
     = ((201, CommentJSON \<lparr>c_id = 4, c_post = 1, c_author = ''v'', c_content = ''late'',
                           c_created_at = 20, c_updated_at = 20\<rparr>),
        example_db\<lparr>comments := comments example_db @
                     [\<lparr>c_id = 4, c_post = 1, c_author = ''v'', c_content = ''late'',
                       c_created_at = 20, c_updated_at = 20\<rparr>],
                   comment_seq := 4\<rparr>)" by code_simp
  from comment_create_forces_url_post [of example_db ?b 20 999] v f2
  have a: "urlpatterns 20 (POST_comments 999 ?b) example_db = ((404, ErrorJSON Http404), example_db)"
    by blast
  from comment_create_forces_url_post [of example_db "comment_body (Some 1) None (Some ''hi'')" 20 999] i
  have b: "urlpatterns 20 (POST_comments 999 (comment_body (Some 1) None (Some ''hi''))) example_db
     = ((400, ErrorJSON (ValidationError [''author''])), example_db)"
    by blast
  from v f1 f2 i e a b show ?thesis by blast
qed

text \<open>
  C4. The specification's example: after \<open>POST /posts/ {"title":"A","content":"B"}\<close>
  has created Post 1, \<open>POST /posts/1/comments/ {"author":"x","content":"hi"}\<close> is
  claimed to answer 201 with \<open>post=1\<close>. The serializer requires \<open>post\<close> in the body, and
  validation comes before \<open>perform_create\<close>: the answer is 400 and no Comment is stored.
\<close>

theorem comment_create_without_body_post_is_rejected:
  "urlpatterns 10 (POST_posts (post_body (Some ''A'') (Some ''B''))) empty_db
     = ((201, PostJSON (\<lparr>p_id = 1, p_title = ''A'', p_content = ''B'',
                         p_created_at = 10, p_updated_at = 10\<rparr>, [])),
        \<lparr>posts = [\<lparr>p_id = 1, p_title = ''A'', p_content = ''B'',
                    p_created_at = 10, p_updated_at = 10\<rparr>],
         comments = [], post_seq = 1, comment_seq = 0\<rparr>) \<and>
   urlpatterns 11 (POST_comments 1 (comment_body None (Some ''x'') (Some ''hi'')))
     \<lparr>posts = [\<lparr>p_id = 1, p_title = ''A'', p_content = ''B'',
                 p_created_at = 10, p_updated_at = 10\<rparr>],
      comments = [], post_seq = 1, comment_seq = 0\<rparr>
   = ((400, ErrorJSON (ValidationError [''post''])),
      \<lparr>posts = [\<lparr>p_id = 1, p_title = ''A'', p_content = ''B'',
                  p_created_at = 10, p_updated_at = 10\<rparr>],
       comments = [], post_seq = 1, comment_seq = 0\<rparr>)"
  by code_simp

text \<open>
  C5. Listing the comments of a Post (of any post identifier the database can hold)
  answers 200 with exactly the Comments whose parent is that Post (as a multiset: each
  once), newest first: of two returned Comments with different creation times, the later
  one stands earlier in the list.
\<close>

theorem comment_list_newest_first:
  assumes "fits_integer post_pk"
  shows "\<exists>rows. CommentListCreateAPIView_get_queryset post_pk d = Inr rows \<and>
           urlpatterns now (GET_comments post_pk) d = ((200, CommentListJSON rows), d) \<and>
           mset rows = filter_mset (\<lambda>c. c_post c = post_pk) (mset (comments d)) \<and>
           (\<forall>i j. i < length rows \<and> j < length rows \<and>
                  c_created_at (rows ! i) < c_created_at (rows ! j) \<longrightarrow> j < i)"
proof -
  define rows where
    "rows = sort_key (\<lambda>c. - c_created_at c) (filter (\<lambda>c. c_post c = post_pk) (comments d))"
  have q: "CommentListCreateAPIView_get_queryset post_pk d = Inr rows"
    using assms
    by (simp add: CommentListCreateAPIView_get_queryset_def Comment_objects_filter_def rows_def)
  have r: "urlpatterns now (GET_comments post_pk) d = ((200, CommentListJSON rows), d)"
    by (simp add: respond_def CommentListCreateAPIView_get_def q)
  have m: "mset rows = filter_mset (\<lambda>c. c_post c = post_pk) (mset (comments d))"
    by (simp add: rows_def)
  have "sorted (map (\<lambda>c. - c_created_at c) rows)" by (simp add: rows_def)
  then have o: "\<forall>i j. i < length rows \<and> j < length rows \<and>
                  c_created_at (rows ! i) < c_created_at (rows ! j) \<longrightarrow> j < i"
    using sorted_desc by blast
  from q r m o show ?thesis by blast
qed

theorem comment_list_newest_first_witness:
  "fits_integer 1 \<and>
   CommentListCreateAPIView_get_queryset 1 example_db =
     Inr [\<lparr>c_id = 3, c_post = 1, c_author = ''z'', c_content = ''hum'',
           c_created_at = 14, c_updated_at = 14\<rparr>,
          \<lparr>c_id = 1, c_post = 1, c_author = ''x'', c_content = ''hi'',
           c_created_at = 11, c_updated_at = 11\<rparr>] \<and>
   urlpatterns 20 (GET_comments 1) example_db =
     ((200, CommentListJSON
         [\<lparr>c_id = 3, c_post = 1, c_author = ''z'', c_content = ''hum'',
           c_created_at = 14, c_updated_at = 14\<rparr>,
          \<lparr>c_id = 1, c_post = 1, c_author = ''x'', c_content = ''hi'',
           c_created_at = 11, c_updated_at = 11\<rparr>]), example_db) \<and>
   1 < length [\<lparr>c_id = 3, c_post = 1, c_author = ''z'', c_content = ''hum'',
                c_created_at = 14, c_updated_at = 14\<rparr>,
               \<lparr>c_id = 1, c_post = 1, c_author = ''x'', c_content = ''hi'',
                c_created_at = 11, c_updated_at = 11\<rparr>] \<and>
   c_created_at ([\<lparr>c_id = 3, c_post = 1, c_author = ''z'', c_content = ''hum'',
                   c_created_at = 14, c_updated_at = 14\<rparr>,
                  \<lparr>c_id = 1, c_post = 1, c_author = ''x'', c_content = ''hi'',
                   c_created_at = 11, c_updated_at = 11\<rparr>] ! 1)
     < c_created_at ([\<lparr>c_id = 3, c_post = 1, c_author = ''z'', c_content = ''hum'',
                       c_created_at = 14, c_updated_at = 14\<rparr>,
                      \<lparr>c_id = 1, c_post = 1, c_author = ''x'', c_content = ''hi'',
                       c_created_at = 11, c_updated_at = 11\<rparr>] ! 0) \<and>
   (0::nat) < 1"
proof -
  let ?rows = "[\<lparr>c_id = 3, c_post = 1, c_author = ''z'', c_content = ''hum'',
                 c_created_at = 14, c_updated_at = 14\<rparr>,
                \<lparr>c_id = 1, c_post = 1, c_author = ''x'', c_content = ''hi'',
                 c_created_at = 11, c_updated_at = 11\<rparr>]"
  have h: "fits_integer 1" by (simp add: fits_integer_def)
  have e: "CommentListCreateAPIView_get_queryset 1 example_db = Inr ?rows"
    by code_simp
  from comment_list_newest_first [OF h, of example_db 20]
  obtain rows where rows:
    "CommentListCreateAPIView_get_queryset 1 example_db = Inr rows"
    "urlpatterns 20 (GET_comments 1) example_db = ((200, CommentListJSON rows), example_db)"
    "\<forall>i j. i < length rows \<and> j < length rows \<and>
           c_created_at (rows ! i) < c_created_at (rows ! j) \<longrightarrow> j < i"
    by blast
  from rows(1) e have eq: "rows = ?rows" by simp
  have k: "1 < length ?rows \<and> 0 < length ?rows \<and>
           c_created_at (?rows ! 1) < c_created_at (?rows ! 0)"
    by simp
  from rows(3) k have o: "(0::nat) < 1" unfolding eq by blast
  from h e rows(2) k o show ?thesis unfolding eq by blast
qed

text \<open>
  C6, as amended. Listing the comments of a post identifier that no stored Post has
  answers 200 with the empty list when the identifier is one the database can hold: the
  list endpoint never looks the Post up and never answers 404. An identifier beyond the
  64-bit range makes the query itself fail, and the request ends as a server error.
\<close>

theorem comment_list_unknown_post_empty:
  assumes "wf_db d" "Post_find d post_pk = None"
  shows "(fits_integer post_pk \<longrightarrow>
            urlpatterns now (GET_comments post_pk) d = ((200, CommentListJSON []), d)) \<and>
         (\<not> fits_integer post_pk \<longrightarrow>
            urlpatterns now (GET_comments post_pk) d = ((500, ErrorJSON OverflowError), d))"
  using assms filter_no_post [of d post_pk]
  by (simp add: wf_db_def Post_find_None respond_def status_of_error_def
      CommentListCreateAPIView_get_def CommentListCreateAPIView_get_queryset_def
      Comment_objects_filter_def)

text \<open>
  The claim as it stands fails: no Post has the identifier \<open>2^63\<close>, and listing its
  comments is answered 500, not 200 with the empty list.
\<close>

theorem comment_list_unknown_post_counterexample:
  "Post_find example_db 9223372036854775808 = None \<and>
   urlpatterns 20 (GET_comments 9223372036854775808) example_db
     = ((500, ErrorJSON OverflowError), example_db)"
  by code_simp

theorem comment_list_unknown_post_empty_witness:
  "wf_db example_db \<and> Post_find example_db 7 = None \<and> fits_integer 7 \<and>
   urlpatterns 20 (GET_comments 7) example_db = ((200, CommentListJSON []), example_db) \<and>
   Post_find example_db 9223372036854775808 = None \<and> \<not> fits_integer 9223372036854775808 \<and>
   urlpatterns 21 (GET_comments 9223372036854775808) example_db
     = ((500, ErrorJSON OverflowError), example_db)"
proof -
  have h1: "wf_db example_db" by (rule wf_example_db)
  have h2: "Post_find example_db 7 = None" by code_simp
  have h3: "fits_integer 7" by (simp add: fits_integer_def)
  have h4: "Post_find example_db 9223372036854775808 = None" by code_simp
  have h5: "\<not> fits_integer 9223372036854775808" by (simp add: fits_integer_def)
  from comment_list_unknown_post_empty [OF h1 h2, of 20] h3
  have a: "urlpatterns 20 (GET_comments 7) example_db = ((200, CommentListJSON []), example_db)"
    by blast
  from comment_list_unknown_post_empty [OF h1 h4, of 21] h5
  have b: "urlpatterns 21 (GET_comments 9223372036854775808) example_db
     = ((500, ErrorJSON OverflowError), example_db)"
    by blast
  from h1 h2 h3 h4 h5 a b show ?thesis by blast
qed

text \<open>
  C7. Deleting a stored Post answers 204 and removes the Post, which can no longer be
  found, together with all of its Comments and no other Comment; from then on, whatever
  requests are served in between, retrieving any of the removed Comments under any post
  identifier the database can hold answers 404.
\<close>

theorem post_delete_cascades:
  assumes "wf_db d" "Post_find d pk \<noteq> None"
  shows "urlpatterns now (DELETE_post pk) d = ((204, NoContent), Post_delete pk d) \<and>
         posts (Post_delete pk d) = filter (\<lambda>p. p_id p \<noteq> pk) (posts d) \<and>
         Post_find (Post_delete pk d) pk = None \<and>
         comments (Post_delete pk d) = filter (\<lambda>c. c_post c \<noteq> pk) (comments d) \<and>
         length (comments (Post_delete pk d)) + length (filter (\<lambda>c. c_post c = pk) (comments d))
           = length (comments d) \<and>
         (\<forall>c\<in>set (comments d). c_post c = pk \<longrightarrow>
            (\<forall>rs now' post_pk. fits_integer post_pk \<longrightarrow>
               fst (urlpatterns now' (GET_comment post_pk (c_id c)) (serve rs (Post_delete pk d)))
                 = (404, ErrorJSON Http404)))"
proof (intro conjI ballI impI allI)
  obtain p where p: "Post_find d pk = Some p" using assms(2) by auto
  then have "p_id p = pk" by (simp add: Post_find_Some)
  then show "urlpatterns now (DELETE_post pk) d = ((204, NoContent), Post_delete pk d)"
    using p by (simp add: respond_def PostRetrieveUpdateDestroyAPIView_delete_def)
  show "posts (Post_delete pk d) = filter (\<lambda>p. p_id p \<noteq> pk) (posts d)"
    by (simp add: Post_delete_def)
  show "Post_find (Post_delete pk d) pk = None"
    by (simp add: Post_find_def Post_delete_def find_None_iff)
  show "comments (Post_delete pk d) = filter (\<lambda>c. c_post c \<noteq> pk) (comments d)"
    by (simp add: Post_delete_def)
  show "length (comments (Post_delete pk d)) + length (filter (\<lambda>c. c_post c = pk) (comments d))
           = length (comments d)"
    using sum_length_filter_compl [of "\<lambda>c. c_post c = pk" "comments d"]
    by (simp add: Post_delete_def)
next
  fix c rs now' post_pk
  assume c: "c \<in> set (comments d)" "c_post c = pk" and f: "fits_integer post_pk"
  have "c_id c \<le> comment_seq d"
    using assms(1) c(1) by (auto simp: wf_db_def list_all_iff comment_ids_def)
  moreover have "c_id c \<notin> set (comment_ids (Post_delete pk d))"
  proof
    assume "c_id c \<in> set (comment_ids (Post_delete pk d))"
    then obtain c' where c': "c' \<in> set (comments d)" "c_post c' \<noteq> pk" "c_id c' = c_id c"
      by (auto simp: comment_ids_def Post_delete_def)
    have "inj_on c_id (set (comments d))"
      using assms(1) by (simp add: wf_db_def comment_ids_def distinct_map)
    with c(1) c'(1,3) have "c' = c" by (auto dest: inj_onD)
    with c(2) c'(2) show False by simp
  qed
  ultimately have "retired (c_id c) (Post_delete pk d)"
    by (simp add: retired_def Post_delete_def)
  then have "retired (c_id c) (serve rs (Post_delete pk d))" by (rule retired_serve)
  from retired_not_found [OF this f, of now']
  show "fst (urlpatterns now' (GET_comment post_pk (c_id c)) (serve rs (Post_delete pk d)))
                 = (404, ErrorJSON Http404)"
    by simp
qed

theorem post_delete_cascades_witness:
  "wf_db example_db \<and> Post_find example_db 1 \<noteq> None \<and>
   urlpatterns 20 (DELETE_post 1) example_db = ((204, NoContent), Post_delete 1 example_db) \<and>
   map p_id (posts (Post_delete 1 example_db)) = [2] \<and>
   map c_id (comments (Post_delete 1 example_db)) = [2] \<and>
   \<lparr>c_id = 3, c_post = 1, c_author = ''z'', c_content = ''hum'',
     c_created_at = 14, c_updated_at = 14\<rparr> \<in> set (comments example_db) \<and>
   fits_integer 2 \<and>
   fst (urlpatterns 30 (GET_comment 2 3)
         (serve [(25, POST_comments 2 (comment_body (Some 2) (Some ''v'') (Some ''later'')))]
            (Post_delete 1 example_db)))
     = (404, ErrorJSON Http404)"
proof -
  have h1: "wf_db example_db" by (rule wf_example_db)
  have h2: "Post_find example_db 1 \<noteq> None" by code_simp
  have h3: "fits_integer 2" by (simp add: fits_integer_def)
  have m: "\<lparr>c_id = 3, c_post = 1, c_author = ''z'', c_content = ''hum'',
     c_created_at = 14, c_updated_at = 14\<rparr> \<in> set (comments example_db)"
    by (simp add: example_db_def)
  note t = post_delete_cascades [OF h1 h2, of 20]
  have a: "urlpatterns 20 (DELETE_post 1) example_db = ((204, NoContent), Post_delete 1 example_db)"
    using t by blast
  have b: "fst (urlpatterns 30 (GET_comment 2 3)
         (serve [(25, POST_comments 2 (comment_body (Some 2) (Some ''v'') (Some ''later'')))]
            (Post_delete 1 example_db)))
     = (404, ErrorJSON Http404)"
  proof -
    have p: "c_post \<lparr>c_id = 3, c_post = 1, c_author = ''z'', c_content = ''hum'',
     c_created_at = 14, c_updated_at = 14\<rparr> = 1"
      by simp
    from t [THEN conjunct2, THEN conjunct2, THEN conjunct2, THEN conjunct2, THEN conjunct2,
            THEN bspec, OF m, THEN mp, OF p] h3
    show ?thesis unfolding Comment.select_convs by blast
  qed
  have c: "map c_id (comments (Post_delete 1 example_db)) = [2]" by code_simp
  have c': "map p_id (posts (Post_delete 1 example_db)) = [2]" by code_simp
  show ?thesis using h1 h2 h3 a b c c' m by blast
qed

text \<open>
  C8. \<open>PostSerializer.update\<close> with a \<open>comments\<close> list leaves every stored Comment whose
  identifier is not in the list exactly as it was, and removes no Comment: every stored
  identifier is still stored afterwards and the table has not shrunk, also when the merge
  stops at an error. Through the routes a Post update leaves the Comment table as it was.
\<close>

theorem post_update_merge_never_removes:
  "(\<forall>cds. pd_comments vd = Some cds \<longrightarrow>
      (\<forall>c\<in>set (comments d). Some (c_id c) \<notin> set (map cd_id cds) \<longrightarrow>
          c \<in> set (comments (snd (PostSerializer_update now inst vd d))))) \<and>
   set (comment_ids d) \<subseteq> set (comment_ids (snd (PostSerializer_update now inst vd d))) \<and>
   length (comments d) \<le> length (comments (snd (PostSerializer_update now inst vd d))) \<and>
   comments (snd (urlpatterns now (PUT_post pk data) d)) = comments d \<and>
   comments (snd (urlpatterns now (PATCH_post pk data) d)) = comments d"
proof -
  let ?p = "Post_save now (Post_setattrs (vd\<lparr>pd_comments := None\<rparr>) inst) d"
  have c: "comments (snd ?p) = comments d" by (rule Post_save_comments)
  then have ci: "comment_ids (snd ?p) = comment_ids d" by (simp add: comment_ids_def)
  have 1: "c0 \<in> set (comments (snd (PostSerializer_update now inst vd d)))"
    if "pd_comments vd = Some cds" "c0 \<in> set (comments d)" "Some (c_id c0) \<notin> set (map cd_id cds)"
    for cds c0
    using that merge_comments_keeps [of c0 "snd ?p" cds now "fst ?p"]
    by (simp add: snd_PostSerializer_update c)
  have 2: "set (comment_ids d) \<subseteq> set (comment_ids (snd (PostSerializer_update now inst vd d)))"
    using merge_comments_ids [of "snd ?p" now "fst ?p"]
    by (simp add: snd_PostSerializer_update ci split: option.splits)
  have 3: "length (comments d) \<le> length (comments (snd (PostSerializer_update now inst vd d)))"
    using merge_comments_length [of "snd ?p" now "fst ?p"]
    by (simp add: snd_PostSerializer_update c split: option.splits)
  have 4: "comments (snd (urlpatterns now (PUT_post pk data) d)) = comments d"
    by (simp add: snd_respond Post_update_view_comments)
  have 5: "comments (snd (urlpatterns now (PATCH_post pk data) d)) = comments d"
    by (simp add: snd_respond Post_update_view_comments)
  from 1 2 3 4 5 show ?thesis by blast
qed

theorem post_update_merge_never_removes_witness:
  "pd_comments \<lparr>pd_title = None, pd_content = None,
      pd_comments = Some [comment_element (Some 1) None (Some ''edited''),
                          comment_element None (Some ''w'') (Some ''new'')]\<rparr>
     = Some [comment_element (Some 1) None (Some ''edited''),
             comment_element None (Some ''w'') (Some ''new'')] \<and>
   \<lparr>c_id = 3, c_post = 1, c_author = ''z'', c_content = ''hum'',
     c_created_at = 14, c_updated_at = 14\<rparr> \<in> set (comments example_db) \<and>
   Some 3 \<notin> set (map cd_id [comment_element (Some 1) None (Some ''edited''),
                              comment_element None (Some ''w'') (Some ''new'')]) \<and>
   \<lparr>c_id = 3, c_post = 1, c_author = ''z'', c_content = ''hum'',
     c_created_at = 14, c_updated_at = 14\<rparr>
     \<in> set (comments (snd (PostSerializer_update 20
          \<lparr>p_id = 1, p_title = ''A'', p_content = ''B'', p_created_at = 10, p_updated_at = 10\<rparr>
          \<lparr>pd_title = None, pd_content = None,
            pd_comments = Some [comment_element (Some 1) None (Some ''edited''),
                                comment_element None (Some ''w'') (Some ''new'')]\<rparr>
          example_db))) \<and>
   map c_id (comments (snd (PostSerializer_update 20
          \<lparr>p_id = 1, p_title = ''A'', p_content = ''B'', p_created_at = 10, p_updated_at = 10\<rparr>
          \<lparr>pd_title = None, pd_content = None,
            pd_comments = Some [comment_element (Some 1) None (Some ''edited''),
                                comment_element None (Some ''w'') (Some ''new'')]\<rparr>
          example_db))) = [1, 2, 3, 4]"
proof -
  let ?cds = "[comment_element (Some 1) None (Some ''edited''),
               comment_element None (Some ''w'') (Some ''new'')]"
  let ?vd = "\<lparr>pd_title = None, pd_content = None, pd_comments = Some ?cds\<rparr>"
  let ?p = "\<lparr>p_id = 1, p_title = ''A'', p_content = ''B'', p_created_at = 10, p_updated_at = 10\<rparr>"
  let ?c = "\<lparr>c_id = 3, c_post = 1, c_author = ''z'', c_content = ''hum'',
     c_created_at = 14, c_updated_at = 14\<rparr>"
  have h1: "pd_comments ?vd = Some ?cds" by simp
  have h2: "?c \<in> set (comments example_db)" by (simp add: example_db_def)
  have h3: "Some (c_id ?c) \<notin> set (map cd_id ?cds)" by (simp add: comment_element_def)
  have e: "map c_id (comments (snd (PostSerializer_update 20 ?p ?vd example_db))) = [1, 2, 3, 4]"
    by code_simp
  from post_update_merge_never_removes [of ?vd example_db 20 ?p 1 ?vd]
  have "\<forall>cds. pd_comments ?vd = Some cds \<longrightarrow>
      (\<forall>c\<in>set (comments example_db). Some (c_id c) \<notin> set (map cd_id cds) \<longrightarrow>
          c \<in> set (comments (snd (PostSerializer_update 20 ?p ?vd example_db))))"
    by blast
  with h1 h2 h3 have k: "?c \<in> set (comments (snd (PostSerializer_update 20 ?p ?vd example_db)))"
    by blast
  have h3': "Some 3 \<notin> set (map cd_id ?cds)" using h3 by simp
  from h1 h2 h3' k e show ?thesis by blast
qed




text \<open>
  C10, as amended. In the nested merge an element whose identifier is missing or 0 takes
  the create branch: no scoped lookup, never \<open>DoesNotExist\<close>. The create call receives
  the element's entries, the identifier 0 included. It inserts a new Comment attached to
  the target Post when the element has no \<open>post\<close> entry, the Post is stored, and the
  identifier is missing or 0 is not yet the key of a Comment; the new Comment then has the
  key 0 when 0 was submitted. Otherwise the call fails with a type error (a \<open>post\<close>
  entry) or an integrity error and inserts nothing.
\<close>

theorem falsy_identifier_takes_create_branch:
  assumes "cd_id cd = None \<or> cd_id cd = Some 0"
  shows "merge_comment now inst cd d = create_branch now inst cd d \<and>
         fst (merge_comment now inst cd d) \<noteq> Inl DoesNotExist \<and>
         (cd_post cd = None \<and> p_id inst \<in> set (post_ids d) \<and>
          (cd_id cd = None \<or> 0 \<notin> set (comment_ids d)) \<longrightarrow>
            (\<exists>c. merge_comment now inst cd d =
                    (Inr (), d\<lparr>comments := comments d @ [c],
                               comment_seq := max (comment_seq d) (c_id c)\<rparr>) \<and>
                  c_post c = p_id inst \<and> c_id c \<notin> set (comment_ids d) \<and>
                  c_id c = (case cd_id cd of
                              None \<Rightarrow> next_id (comment_seq d) (comment_ids d)
                            | Some k \<Rightarrow> k))) \<and>
         (cd_post cd \<noteq> None \<longrightarrow> merge_comment now inst cd d = (Inl TypeError, d)) \<and>
         (cd_post cd = None \<and>
          (p_id inst \<notin> set (post_ids d) \<or> (cd_id cd = Some 0 \<and> 0 \<in> set (comment_ids d))) \<longrightarrow>
            merge_comment now inst cd d = (Inl IntegrityError, d))"
proof -
  have m: "merge_comment now inst cd d = create_branch now inst cd d"
    using assms by (auto simp: merge_comment_def)
  have 2: "fst (create_branch now inst cd d) \<noteq> Inl DoesNotExist"
    by (simp add: create_branch_cases Let_def)
  have 3: "\<exists>c. create_branch now inst cd d =
                    (Inr (), d\<lparr>comments := comments d @ [c],
                               comment_seq := max (comment_seq d) (c_id c)\<rparr>) \<and>
                  c_post c = p_id inst \<and> c_id c \<notin> set (comment_ids d) \<and>
                  c_id c = (case cd_id cd of
                              None \<Rightarrow> next_id (comment_seq d) (comment_ids d)
                            | Some k \<Rightarrow> k)"
    if "cd_post cd = None \<and> p_id inst \<in> set (post_ids d) \<and>
          (cd_id cd = None \<or> 0 \<notin> set (comment_ids d))"
  proof -
    define i where
      "i = (case cd_id cd of None \<Rightarrow> next_id (comment_seq d) (comment_ids d) | Some k \<Rightarrow> k)"
    define c where
      "c = \<lparr>c_id = i, c_post = p_id inst,
            c_author = (case cd_author cd of None \<Rightarrow> [] | Some a \<Rightarrow> a),
            c_content = (case cd_content cd of None \<Rightarrow> [] | Some t \<Rightarrow> t),
            c_created_at = now, c_updated_at = now\<rparr>"
    have fresh: "i \<notin> set (comment_ids d)"
      using that assms next_id_fresh [of "comment_seq d" "comment_ids d"] by (auto simp: i_def)
    have sel: "c_post c = p_id inst" "c_id c = i" by (simp_all add: c_def)
    have "create_branch now inst cd d =
            (Inr (), d\<lparr>comments := comments d @ [c],
                       comment_seq := max (comment_seq d) (c_id c)\<rparr>)"
      using that fresh by (simp add: create_branch_cases Let_def sel) (simp add: c_def i_def)
    then show ?thesis using fresh sel unfolding i_def by (intro exI [of _ c]) simp
  qed
  have 4: "create_branch now inst cd d = (Inl TypeError, d)" if "cd_post cd \<noteq> None"
    using that by (simp add: create_branch_cases)
  have 5: "create_branch now inst cd d = (Inl IntegrityError, d)"
    if "cd_post cd = None \<and>
          (p_id inst \<notin> set (post_ids d) \<or> (cd_id cd = Some 0 \<and> 0 \<in> set (comment_ids d)))"
    using that by (auto simp: create_branch_cases Let_def)
  from m 2 3 4 5 show ?thesis by simp
qed

text \<open>
  The claim as it stands fails: of two elements with the identifier 0 the first is inserted
  under the key 0, the second is refused and ends the update.
\<close>

theorem repeated_zero_identifier_counterexample:
  "PostSerializer_update 20
     \<lparr>p_id = 1, p_title = ''A'', p_content = ''B'', p_created_at = 10, p_updated_at = 10\<rparr>
     \<lparr>pd_title = None, pd_content = None,
      pd_comments = Some [comment_element (Some 0) (Some ''w'') (Some ''first''),
                          comment_element (Some 0) (Some ''w'') (Some ''second'')]\<rparr>
     example_db
   = (Inl IntegrityError,
      example_db\<lparr>posts :=
         [\<lparr>p_id = 1, p_title = ''A'', p_content = ''B'', p_created_at = 10, p_updated_at = 20\<rparr>,
          \<lparr>p_id = 2, p_title = ''C'', p_content = ''D'', p_created_at = 12, p_updated_at = 12\<rparr>],
        comments := comments example_db @
         [\<lparr>c_id = 0, c_post = 1, c_author = ''w'', c_content = ''first'',
           c_created_at = 20, c_updated_at = 20\<rparr>]\<rparr>)"
  by code_simp

theorem falsy_identifier_takes_create_branch_witness:
  "(cd_id (comment_element (Some 0) (Some ''w'') (Some ''first'')) = None \<or>
    cd_id (comment_element (Some 0) (Some ''w'') (Some ''first'')) = Some 0) \<and>
   cd_post (comment_element (Some 0) (Some ''w'') (Some ''first'')) = None \<and>
   1 \<in> set (post_ids example_db) \<and> 0 \<notin> set (comment_ids example_db) \<and>
   merge_comment 20
     \<lparr>p_id = 1, p_title = ''A'', p_content = ''B'', p_created_at = 10, p_updated_at = 10\<rparr>
     (comment_element (Some 0) (Some ''w'') (Some ''first'')) example_db
   = (Inr (), example_db\<lparr>comments := comments example_db @
         [\<lparr>c_id = 0, c_post = 1, c_author = ''w'', c_content = ''first'',
           c_created_at = 20, c_updated_at = 20\<rparr>]\<rparr>) \<and>
   fst (merge_comment 20
     \<lparr>p_id = 1, p_title = ''A'', p_content = ''B'', p_created_at = 10, p_updated_at = 10\<rparr>
     (comment_element (Some 0) (Some ''w'') (Some ''first'')) example_db) \<noteq> Inl DoesNotExist"
proof -
  let ?e = "comment_element (Some 0) (Some ''w'') (Some ''first'')"
  let ?p = "\<lparr>p_id = 1, p_title = ''A'', p_content = ''B'', p_created_at = 10, p_updated_at = 10\<rparr>"
  have h: "cd_id ?e = None \<or> cd_id ?e = Some 0" by (simp add: comment_element_def)
  have a: "cd_post ?e = None" by (simp add: comment_element_def)
  have b: "1 \<in> set (post_ids example_db)" by code_simp
  have c: "0 \<notin> set (comment_ids example_db)" by code_simp
  have e: "merge_comment 20 ?p ?e example_db
     = (Inr (), example_db\<lparr>comments := comments example_db @
         [\<lparr>c_id = 0, c_post = 1, c_author = ''w'', c_content = ''first'',
           c_created_at = 20, c_updated_at = 20\<rparr>]\<rparr>)"
    by code_simp
  from falsy_identifier_takes_create_branch [OF h, of 20 ?p example_db]
  have n: "fst (merge_comment 20 ?p ?e example_db) \<noteq> Inl DoesNotExist" by blast
  from h a b c e n show ?thesis by blast
qed

end
